theory Spec2Isabelle
  imports Complex_Main
begin

section \<open>The cast player of CastVideos.js: data model\<close>

text \<open>
  The controller is the JavaScript object \<open>CastPlayer\<close>. Its fields become a record, its
  methods become functions from the record to the updated record. JavaScript numbers are
  modelled by rationals (every finite double is one); NaN, the infinities and rounding
  are not modelled, and every place where the source divides by a number that may be zero
  or reads a value that may be \<open>undefined\<close> is written out by cases.
\<close>

datatype device_state = DEVICE_IDLE | DEVICE_ACTIVE | DEVICE_WARNING | DEVICE_ERROR

text \<open>
  \<open>PLAYER_STATE\<close> of the source. \<open>BUFFERING\<close> is not a member of the source's table; it is
  the one further value a receiver reports in \<open>session.media[0].playerState\<close>, which
  \<open>onMediaDiscovered\<close> copies into \<open>castPlayerState\<close>.
\<close>

datatype player_state =
  IDLE | LOADING | LOADED | PLAYING | PAUSED | STOPPED | SEEKING | ERROR | BUFFERING

fun state_name :: "player_state \<Rightarrow> string" where
  "state_name IDLE = ''IDLE''"
| "state_name LOADING = ''LOADING''"
| "state_name LOADED = ''LOADED''"
| "state_name PLAYING = ''PLAYING''"
| "state_name PAUSED = ''PAUSED''"
| "state_name STOPPED = ''STOPPED''"
| "state_name SEEKING = ''SEEKING''"
| "state_name ERROR = ''ERROR''"
| "state_name BUFFERING = ''BUFFERING''"

text \<open>A \<open>chrome.cast.media.Media\<close> object, as far as the source reads it.\<close>

record media_session =
  media_duration :: rat
  media_playerState :: player_state
  media_currentTime :: rat

text \<open>A \<open>chrome.cast.Session\<close> object: \<open>receiver.friendlyName\<close> and the array \<open>media\<close>.\<close>

record cast_session =
  friendlyName :: string
  session_media :: "media_session list"

text \<open>The local video element: the properties the source reads and writes.\<close>

record local_player =
  lp_currentTime :: rat
  lp_duration :: rat
  lp_playing :: bool
  lp_shown :: bool

text \<open>
  The value a media status listener receives. The Cast API calls the listener with a
  boolean; the source reads \<open>idleReason\<close>, \<open>playerState\<close> and \<open>currentTime\<close> from it as from a
  status object. Both shapes are modelled; a property read from a boolean is \<open>undefined\<close>
  (\<open>None\<close>).
\<close>

datatype status = StatusFlag bool | StatusMedia "string option" string rat

fun status_idleReason :: "status \<Rightarrow> string option" where
  "status_idleReason (StatusFlag b) = None"
| "status_idleReason (StatusMedia r p t) = r"

fun status_playerState :: "status \<Rightarrow> string option" where
  "status_playerState (StatusFlag b) = None"
| "status_playerState (StatusMedia r p t) = Some p"

fun status_currentTime :: "status \<Rightarrow> rat option" where
  "status_currentTime (StatusFlag b) = None"
| "status_currentTime (StatusMedia r p t) = Some t"

text \<open>\<open>e == false\<close>: true for the boolean \<open>false\<close> only; an object is never loosely equal to it.\<close>

fun status_is_false :: "status \<Rightarrow> bool" where
  "status_is_false (StatusFlag b) = (\<not> b)"
| "status_is_false (StatusMedia r p t) = False"

subsection \<open>The environment: timers, remote calls, the page\<close>

text \<open>
  The browser's timer table. \<open>setInterval\<close> and \<open>setTimeout\<close> draw their ids from one
  counter, the ids are positive and never reused, and \<open>clearInterval\<close> cancels whatever
  timer has the id. The only \<open>setTimeout\<close> of the controller schedules \<open>setProgressFlag\<close>, so
  a pending timeout is its id and its due time in milliseconds.
\<close>

record browser =
  intervals :: "nat list"
  timeouts :: "(nat \<times> nat) list"
  nextTimerId :: nat
  clock :: nat

text \<open>The calls the controller makes on the remote session capability, in order.\<close>

datatype command =
  RequestSession
| SessionStop
| LoadMedia string bool rat
| AddUpdateListener
| MediaPlay
| MediaPause
| MediaStop
| MediaSeek rat

text \<open>
  A \<open>style\<close> length as the script last assigned it: never assigned, \<open>n px\<close>, or a string that
  is no length (\<open>'NaNpx'\<close>, \<open>'undefinedpx'\<close>, \<open>'Infinitypx'\<close>).
\<close>

datatype css = Unset | Px int | NoLength

text \<open>What is assigned to \<open>innerHTML\<close> of the duration element: a string or a number.\<close>

datatype html = Text string | Number rat

record page =
  video_link :: string
  progress_width :: css
  indicator_marginLeft :: css
  playerstate_html :: string
  playerstate_shown :: bool
  duration_html :: html
  casticonactive_shown :: bool
  play_shown :: bool

record player =
  deviceState :: device_state
  currentMediaSession :: "media_session option"
  currentVolume :: rat
  autoplay :: bool
  session :: "cast_session option"
  castPlayerState :: player_state
  localPlayerState :: player_state
  localPlayer :: local_player
  audio :: bool
  currentMediaIndex :: nat
  currentMediaTime :: rat
  currentMediaDuration :: rat
  timer :: "nat option"
  progressFlag :: bool
  timerStep :: nat
  env :: browser
  calls :: "command list"
  dom :: page

definition PROGRESS_BAR_WIDTH :: int where
  "PROGRESS_BAR_WIDTH = 600"

text \<open>The state the constructor leaves, on a page whose global \<open>video_link\<close> is \<open>url\<close>.\<close>

definition CastPlayer :: "string \<Rightarrow> player" where
  "CastPlayer url =
     \<lparr> deviceState = DEVICE_IDLE,
       currentMediaSession = None,
       currentVolume = 1 / 2,
       autoplay = True,
       session = None,
       castPlayerState = IDLE,
       localPlayerState = PAUSED,
       localPlayer = \<lparr> lp_currentTime = 0, lp_duration = 0, lp_playing = False, lp_shown = True \<rparr>,
       audio = True,
       currentMediaIndex = 0,
       currentMediaTime = 0,
       currentMediaDuration = - 1,
       timer = None,
       progressFlag = True,
       timerStep = 1000,
       env = \<lparr> intervals = [], timeouts = [], nextTimerId = 1, clock = 0 \<rparr>,
       calls = [],
       dom = \<lparr> video_link = url, progress_width = Unset, indicator_marginLeft = Unset,
               playerstate_html = [], playerstate_shown = False, duration_html = Text [],
               casticonactive_shown = False, play_shown = True \<rparr> \<rparr>"

subsection \<open>Timer primitives\<close>

text \<open>\<open>if (this.timer)\<close>: \<open>null\<close> and the number 0 are falsy.\<close>

fun truthy :: "nat option \<Rightarrow> bool" where
  "truthy None = False"
| "truthy (Some i) = (i \<noteq> 0)"

fun clear_id :: "nat option \<Rightarrow> browser \<Rightarrow> browser" where
  "clear_id None b = b"
| "clear_id (Some i) b =
     b\<lparr> intervals := filter (\<lambda>j. j \<noteq> i) (intervals b),
        timeouts := filter (\<lambda>p. fst p \<noteq> i) (timeouts b) \<rparr>"

text \<open>\<open>clearInterval(this.timer)\<close>; the field \<open>timer\<close> keeps its value.\<close>

definition clearInterval :: "player \<Rightarrow> player" where
  "clearInterval s = s\<lparr> env := clear_id (timer s) (env s) \<rparr>"

text \<open>\<open>this.timer = setInterval(callback.bind(this), this.timerStep)\<close>.\<close>

definition setInterval :: "player \<Rightarrow> player" where
  "setInterval s =
     (let b = env s; i = nextTimerId b
      in s\<lparr> timer := Some i,
            env := b\<lparr> intervals := intervals b @ [i], nextTimerId := Suc i \<rparr> \<rparr>)"

text \<open>\<open>setTimeout(this.setProgressFlag.bind(this), 1000)\<close>.\<close>

definition setTimeout :: "player \<Rightarrow> player" where
  "setTimeout s =
     (let b = env s; i = nextTimerId b
      in s\<lparr> env := b\<lparr> timeouts := timeouts b @ [(i, clock b + 1000)], nextTimerId := Suc i \<rparr> \<rparr>)"

definition startProgressTimer :: "player \<Rightarrow> player" where
  "startProgressTimer s =
     setInterval (if truthy (timer s) then (clearInterval s)\<lparr> timer := None \<rparr> else s)"

text \<open>
  The single-timer invariant: every active interval is the one held in \<open>this.timer\<close>, and
  every id in use lies below the next id the browser hands out (which is positive).
\<close>

definition single_timer :: "player \<Rightarrow> bool" where
  "single_timer s =
     (0 < nextTimerId (env s)
      \<and> list_all (\<lambda>i. 0 < i \<and> timer s = Some i) (intervals (env s))
      \<and> distinct (intervals (env s))
      \<and> list_all (\<lambda>i. i < nextTimerId (env s)) (intervals (env s)))"

section \<open>Session lifecycle and display\<close>

definition issue :: "command \<Rightarrow> player \<Rightarrow> player" where
  "issue c s = s\<lparr> calls := calls s @ [c] \<rparr>"

text \<open>
  \<open>launchApp\<close>: \<open>chrome.cast.requestSession(...)\<close>, then \<open>clearInterval(this.timer)\<close> if
  \<open>this.timer\<close> is truthy.
\<close>

definition launchApp :: "player \<Rightarrow> player" where
  "launchApp s =
     (let s1 = issue RequestSession s
      in if truthy (timer s1) then clearInterval s1 else s1)"

definition updateMediaControlUI :: "player \<Rightarrow> player" where
  "updateMediaControlUI s =
     (let active = (deviceState s = DEVICE_ACTIVE);
          playerState = (if active then castPlayerState s else localPlayerState s);
          d = (dom s)\<lparr> casticonactive_shown := active \<rparr>
      in s\<lparr> dom :=
            (if playerState = LOADED \<or> playerState = PLAYING then d\<lparr> play_shown := False \<rparr>
             else if playerState = PAUSED \<or> playerState = IDLE \<or> playerState = LOADING
                     \<or> playerState = STOPPED then d\<lparr> play_shown := True \<rparr>
             else d) \<rparr>)"

definition updateDisplayMessage :: "player \<Rightarrow> player" where
  "updateDisplayMessage s =
     (let s1 = s\<lparr> dom := (dom s)\<lparr> playerstate_shown := True \<rparr> \<rparr>
      in case session s1 of
           Some sess \<Rightarrow>
             s1\<lparr> dom := (dom s1)\<lparr> playerstate_html :=
                     state_name (castPlayerState s1) @ '' on '' @ friendlyName sess \<rparr> \<rparr>
         | None \<Rightarrow>
             launchApp (s1\<lparr> dom := (dom s1)\<lparr> playerstate_html := ''Start casting to begin'' \<rparr> \<rparr>))"

text \<open>\<open>stopApp\<close> asks the session to stop; \<open>onStopAppSuccess\<close> is its success callback.\<close>

definition stopApp :: "player \<Rightarrow> player" where
  "stopApp s = (case session s of Some sess \<Rightarrow> issue SessionStop s | None \<Rightarrow> s)"

definition onStopAppSuccess :: "player \<Rightarrow> player" where
  "onStopAppSuccess s =
     updateMediaControlUI (updateDisplayMessage (clearInterval
       (s\<lparr> deviceState := DEVICE_IDLE, castPlayerState := IDLE, currentMediaSession := None \<rparr>)))"

definition onLaunchError :: "player \<Rightarrow> player" where
  "onLaunchError s = s\<lparr> deviceState := DEVICE_ERROR \<rparr>"

section \<open>Loading media: the content type\<close>

text \<open>\<open>url.split('.')\<close>: the pieces between the dots; never an empty array.\<close>

fun split_on :: "char \<Rightarrow> string \<Rightarrow> string list" where
  "split_on c [] = [[]]"
| "split_on c (x # xs) =
     (if x = c then [] # split_on c xs
      else (case split_on c xs of [] \<Rightarrow> [[x]] | p # ps \<Rightarrow> (x # p) # ps))"

text \<open>\<open>.pop()\<close> of the array \<open>split\<close> returns: its last element.\<close>

definition extension :: "string \<Rightarrow> string" where
  "extension url = last (split_on (CHR ''.'') url)"

text \<open>\<open>Array.prototype.indexOf\<close>: the first index of the element, or \<open>-1\<close>.\<close>

fun indexOf :: "'a list \<Rightarrow> 'a \<Rightarrow> int" where
  "indexOf [] x = - 1"
| "indexOf (y # ys) x =
     (if y = x then 0 else (let i = indexOf ys x in if i < 0 then - 1 else i + 1))"

definition formats :: "(string \<times> string) list" where
  "formats =
     [(''mkv'', ''video''), (''webm'', ''video''), (''mp4'', ''video''),
      (''jpeg'', ''image''), (''jpg'', ''image''), (''gif'', ''image''),
      (''png'', ''image''), (''bmp'', ''image''), (''webp'', ''image'')]"

text \<open>The loop of \<open>getContentType\<close>; the empty string when no format matches.\<close>

fun find_format :: "(string \<times> string) list \<Rightarrow> string \<Rightarrow> string" where
  "find_format [] ext = []"
| "find_format ((e, t) # fs) ext = (if e = ext then t @ ''/'' @ ext else find_format fs ext)"

definition getContentType :: "string \<Rightarrow> string" where
  "getContentType url = find_format formats (extension url)"

definition exts :: "string list" where
  "exts = [''mkv'', ''webm'', ''mp4'', ''jpeg'', ''jpg'', ''gif'', ''png'', ''bmp'', ''webp'']"

text \<open>
  The content type \<open>loadMedia\<close> attaches to the load request: \<open>getContentType\<close> when
  \<open>exts.indexOf(ext) > 0\<close>, else \<open>'video/mp4'\<close>.
\<close>

definition load_contentType :: "string \<Rightarrow> string" where
  "load_contentType link =
     (let ext = extension link; is_valid = indexOf exts ext
      in if is_valid > 0 then getContentType link else ''video/mp4'')"

definition loadMedia :: "nat \<Rightarrow> player \<Rightarrow> player" where
  "loadMedia mediaIndex s =
     (case session s of
        None \<Rightarrow> s
      | Some sess \<Rightarrow>
          (let contentType = load_contentType (video_link (dom s));
               start = (if localPlayerState s = PLAYING then lp_currentTime (localPlayer s) else 0)
           in issue (LoadMedia contentType (autoplay s) start) (s\<lparr> castPlayerState := LOADING \<rparr>)))"

definition onRequestSessionSuccess :: "cast_session \<Rightarrow> player \<Rightarrow> player" where
  "onRequestSessionSuccess e s =
     loadMedia (currentMediaIndex s)
       (updateMediaControlUI (s\<lparr> session := Some e, deviceState := DEVICE_ACTIVE \<rparr>))"

definition onLoadMediaError :: "player \<Rightarrow> player" where
  "onLoadMediaError s =
     (let s1 = updateDisplayMessage (updateMediaControlUI (s\<lparr> castPlayerState := IDLE \<rparr>));
          link = video_link (dom s1)
      in s1\<lparr> dom := (dom s1)\<lparr> playerstate_shown := True,
               playerstate_html :=
                 ''<span class='' @ [CHR 0x27] @ ''loaded'' @ [CHR 0x27]
                 @ ''>Error...could not load file</span><span class='' @ [CHR 0x27]
                 @ ''vid_link'' @ [CHR 0x27] @ ''><a href='' @ [CHR 0x27] @ link @ [CHR 0x27]
                 @ ''>'' @ link @ ''</a></span>'' \<rparr> \<rparr>)"

section \<open>Formatting the duration\<close>

text \<open>
  \<open>parseInt\<close> of a number: the integer part, rounded towards zero. (For numbers of
  magnitude below \<open>1e-6\<close> or from \<open>1e21\<close> JavaScript prints an exponent and \<open>parseInt\<close>
  reads its first digits; that range is not modelled.)
\<close>

definition parseInt :: "rat \<Rightarrow> int" where
  "parseInt x = (if 0 \<le> x then \<lfloor>x\<rfloor> else \<lceil>x\<rceil>)"

text \<open>The remainder \<open>a % b\<close> of JavaScript: it has the sign of \<open>a\<close>.\<close>

definition js_rem :: "rat \<Rightarrow> rat \<Rightarrow> rat" where
  "js_rem a b = a - b * of_int (parseInt (a / b))"

definition digit_char :: "nat \<Rightarrow> char" where
  "digit_char d = char_of (48 + d)"

fun show_nat :: "nat \<Rightarrow> string" where
  "show_nat n = (if n < 10 then [digit_char n] else show_nat (n div 10) @ [digit_char (n mod 10)])"

text \<open>\<open>number + ''\<close> for an integer.\<close>

definition show_int :: "int \<Rightarrow> string" where
  "show_int i = (if i < 0 then CHR ''-'' # show_nat (nat (- i)) else show_nat (nat i))"

function pad_loop :: "string \<Rightarrow> nat \<Rightarrow> string" where
  "pad_loop output targetLength =
     (if length output < targetLength then pad_loop (CHR ''0'' # output) targetLength
      else output)"
  by pat_completeness auto
termination
  by (relation "measure (\<lambda>(output, targetLength). targetLength - length output)") auto

definition leftPad :: "int \<Rightarrow> nat \<Rightarrow> string" where
  "leftPad number targetLength = pad_loop (show_int number) targetLength"

text \<open>
  The formatting in \<open>onMediaLoadedLocally\<close>: what is assigned to the duration element for
  the duration \<open>d\<close>.
\<close>

definition format_local :: "rat \<Rightarrow> html" where
  "format_local d =
     (let hr = parseInt (d / 3600);
          duration = d - of_int hr * 3600;
          mn = parseInt (duration / 60);
          sec = parseInt (js_rem duration 60)
      in if hr > 0 then Text (show_int hr @ '':'' @ show_int mn @ '':'' @ leftPad sec 2)
         else if mn > 0 then Text (show_int mn @ '':'' @ leftPad sec 2)
         else Text (leftPad sec 2))"

text \<open>
  The formatting in \<open>onMediaDiscovered\<close>. In the last branch the source calls
  \<open>leftPad(sec,2)\<close> and drops the result, so the variable \<open>duration\<close> still holds the number.
\<close>

definition format_remote :: "rat \<Rightarrow> html" where
  "format_remote d =
     (let hr = parseInt (d / 3600);
          duration = d - of_int hr * 3600;
          mn = parseInt (duration / 60);
          sec = parseInt (js_rem duration 60)
      in if hr > 0 then Text (show_int hr @ '':'' @ show_int mn @ '':'' @ leftPad sec 2)
         else if mn > 0 then Text (show_int mn @ '':'' @ leftPad sec 2)
         else Number duration)"

section \<open>Errors\<close>

text \<open>
  Reading a property of \<open>null\<close> or \<open>undefined\<close> throws a \<open>TypeError\<close>. The handler stops
  there, and the fields it had assigned before keep their new values: a failing handler
  returns the error together with the state at the throw.
\<close>

datatype error = TypeError

type_synonym outcome = "(error \<times> player) + player"

fun state_after :: "outcome \<Rightarrow> player" where
  "state_after (Inl (e, s)) = s"
| "state_after (Inr s) = s"

fun threw :: "outcome \<Rightarrow> bool" where
  "threw (Inl x) = True"
| "threw (Inr s) = False"

section \<open>The progress reconciler\<close>

definition setProgressFlag :: "player \<Rightarrow> player" where
  "setProgressFlag s = s\<lparr> progressFlag := True \<rparr>"

text \<open>
  The width \<open>updateProgressBar\<close> assigns: \<open>Math.ceil(600 * e.currentTime / duration + 1)\<close>,
  at most 600, with \<open>'px'\<close> appended. \<open>e.currentTime\<close> is \<open>undefined\<close> for a boolean \<open>e\<close> (the
  result is \<open>NaN\<close>); a zero duration gives \<open>Infinity\<close> (cut to 600), \<open>NaN\<close> or \<open>-Infinity\<close>.
\<close>

definition push_width :: "rat option \<Rightarrow> rat \<Rightarrow> css" where
  "push_width ct d =
     (case ct of
        None \<Rightarrow> NoLength
      | Some t \<Rightarrow>
          if d = 0 then (if 0 < t then Px 600 else NoLength)
          else (let width = \<lceil>of_int PROGRESS_BAR_WIDTH * t / d + 1\<rceil>
                in Px (if width > 600 then 600 else width)))"

text \<open>The indicator offset: \<open>-21 - 600 + Math.ceil(600 * e.currentTime / duration) + 'px'\<close>.\<close>

definition push_margin :: "rat option \<Rightarrow> rat \<Rightarrow> css" where
  "push_margin ct d =
     (case ct of
        None \<Rightarrow> NoLength
      | Some t \<Rightarrow>
          if d = 0 then NoLength
          else Px (- 21 - PROGRESS_BAR_WIDTH + \<lceil>of_int PROGRESS_BAR_WIDTH * t / d\<rceil>))"

text \<open>
  \<open>e.idleReason == 'FINISHED' && e.playerState == 'IDLE'\<close>: the status that
  \<open>updateProgressBar\<close> treats as the end of the media.
\<close>

definition finished :: "status \<Rightarrow> bool" where
  "finished e = (status_idleReason e = Some ''FINISHED'' \<and> status_playerState e = Some ''IDLE'')"

definition updateProgressBar :: "status \<Rightarrow> player \<Rightarrow> outcome" where
  "updateProgressBar e s =
     (if finished e then
        Inr (updateDisplayMessage
              ((clearInterval
                 (s\<lparr> dom := (dom s)\<lparr> progress_width := Px 0,
                        indicator_marginLeft := Px (- 21 - PROGRESS_BAR_WIDTH) \<rparr> \<rparr>))
               \<lparr> castPlayerState := STOPPED \<rparr>))
      else
        (case currentMediaSession s of
           None \<Rightarrow> Inl (TypeError, s)
         | Some m \<Rightarrow>
             (let s1 = s\<lparr> dom := (dom s)\<lparr> progress_width :=
                          push_width (status_currentTime e) (media_duration m) \<rparr> \<rparr>;
                  s2 = setTimeout (s1\<lparr> progressFlag := False \<rparr>)
              in Inr (s2\<lparr> dom := (dom s2)\<lparr> indicator_marginLeft :=
                          push_margin (status_currentTime e) (media_duration m) \<rparr> \<rparr>))))"

text \<open>\<open>isNaN(parseInt(p.style.width))\<close>: the style holds no leading integer.\<close>

fun no_int :: "css \<Rightarrow> bool" where
  "no_int (Px n) = False"
| "no_int Unset = True"
| "no_int NoLength = True"

text \<open>\<open>pp + 'px'\<close> and \<open>-21 - 600 + pp + 'px'\<close> for a \<open>pp\<close> that may be \<open>undefined\<close>.\<close>

fun px_of :: "int option \<Rightarrow> css" where
  "px_of None = NoLength"
| "px_of (Some n) = Px n"

fun over_width :: "int option \<Rightarrow> bool" where
  "over_width None = False"
| "over_width (Some n) = (n > PROGRESS_BAR_WIDTH)"

definition updateProgressBarByTimer :: "player \<Rightarrow> player" where
  "updateProgressBarByTimer s =
     (let s1 = (if no_int (progress_width (dom s))
                then s\<lparr> dom := (dom s)\<lparr> progress_width := Px 0 \<rparr> \<rparr> else s);
          pp = (if currentMediaDuration s1 > 0
                then Some \<lfloor>of_int PROGRESS_BAR_WIDTH * currentMediaTime s1 / currentMediaDuration s1\<rfloor>
                else None);
          pp' = (if progressFlag s1 then map_option (\<lambda>n. if n > 600 then 600 else n) pp else pp);
          s2 = (if progressFlag s1
                then s1\<lparr> dom := (dom s1)\<lparr> progress_width := px_of pp',
                         indicator_marginLeft :=
                           px_of (map_option (\<lambda>n. - 21 - PROGRESS_BAR_WIDTH + n) pp') \<rparr> \<rparr>
                else s1)
      in if over_width pp'
         then updateMediaControlUI (updateDisplayMessage
                ((clearInterval s2)\<lparr> deviceState := DEVICE_IDLE, castPlayerState := IDLE \<rparr>))
         else s2)"

definition incrementMediaTime :: "player \<Rightarrow> player" where
  "incrementMediaTime s =
     (if castPlayerState s = PLAYING \<or> localPlayerState s = PLAYING then
        (if currentMediaTime s < currentMediaDuration s
         then updateProgressBarByTimer (s\<lparr> currentMediaTime := currentMediaTime s + 1 \<rparr>)
         else clearInterval (s\<lparr> currentMediaTime := 0 \<rparr>))
      else s)"

definition onMediaStatusUpdate :: "status \<Rightarrow> player \<Rightarrow> outcome" where
  "onMediaStatusUpdate e s =
     (let s1 = (if status_is_false e
                then s\<lparr> currentMediaTime := 0, castPlayerState := IDLE \<rparr> else s)
      in case updateProgressBar e s1 of
           Inl x \<Rightarrow> Inl x
         | Inr s2 \<Rightarrow> Inr (updateMediaControlUI (updateDisplayMessage s2)))"

section \<open>Media discovery and local load\<close>

text \<open>
  \<open>onMediaDiscovered\<close> after its two tests of \<open>how\<close>: the timer is started if the state is
  Playing, the status listener is registered, the duration is stored and shown, the timer
  is started (again), and the controls and the message are refreshed. The statement
  \<open>this.localPlayerState == PLAYER_STATE.STOPPED;\<close> is a comparison and has no effect.
\<close>

definition discovered_rest :: "media_session \<Rightarrow> player \<Rightarrow> player" where
  "discovered_rest mediaSession s3 =
     (let s4 = (if castPlayerState s3 = PLAYING then startProgressTimer s3 else s3);
          s5 = issue AddUpdateListener s4;
          s6 = s5\<lparr> currentMediaDuration := media_duration mediaSession,
                  dom := (dom s5)\<lparr> duration_html :=
                           format_remote (media_duration mediaSession) \<rparr> \<rparr>
      in updateDisplayMessage (updateMediaControlUI (startProgressTimer s6)))"

definition onMediaDiscovered :: "string \<Rightarrow> media_session \<Rightarrow> player \<Rightarrow> outcome" where
  "onMediaDiscovered how mediaSession s =
     (let s1 = s\<lparr> currentMediaSession := Some mediaSession \<rparr>;
          s2 = (if how = ''loadMedia''
                then s1\<lparr> castPlayerState := (if autoplay s1 then PLAYING else LOADED) \<rparr>
                else s1)
      in if how = ''activeSession'' then
           (case session s2 of
              None \<Rightarrow> Inl (TypeError, s2)
            | Some sess \<Rightarrow>
                (case session_media sess of
                   [] \<Rightarrow> Inl (TypeError, s2)
                 | m0 # ms \<Rightarrow>
                     Inr (discovered_rest mediaSession
                           (s2\<lparr> castPlayerState := media_playerState m0,
                                currentMediaTime := media_currentTime m0 \<rparr>))))
         else Inr (discovered_rest mediaSession s2))"

text \<open>
  \<open>sessionListener\<close> receives a session object (\<open>@param {!Object} e\<close>), so its test
  \<open>if (this.session)\<close> succeeds.
\<close>

definition sessionListener :: "cast_session \<Rightarrow> player \<Rightarrow> outcome" where
  "sessionListener e s =
     (let s1 = s\<lparr> session := Some e \<rparr>;
          s2 = s1\<lparr> deviceState := DEVICE_ACTIVE \<rparr>
      in case session_media e of
           m0 # ms \<Rightarrow> onMediaDiscovered ''activeSession'' m0 s2
         | [] \<Rightarrow> Inr (loadMedia (currentMediaIndex s2) s2))"

definition onMediaLoadedLocally :: "rat \<Rightarrow> player \<Rightarrow> player" where
  "onMediaLoadedLocally currentTime s =
     (let s1 = s\<lparr> currentMediaDuration := lp_duration (localPlayer s) \<rparr>;
          s2 = s1\<lparr> dom := (dom s1)\<lparr> duration_html := format_local (currentMediaDuration s1) \<rparr>,
                  localPlayer := (localPlayer s1)\<lparr> lp_currentTime := currentTime \<rparr> \<rparr>;
          s3 = startProgressTimer s2;
          link = video_link (dom s3)
      in s3\<lparr> dom := (dom s3)\<lparr> playerstate_shown := True,
               playerstate_html :=
                 ''<span class='' @ [CHR 0x27] @ ''loaded'' @ [CHR 0x27]
                 @ ''>Loaded...now push play!</span><span class='' @ [CHR 0x27]
                 @ ''vid_link'' @ [CHR 0x27] @ ''><a href='' @ [CHR 0x27] @ link @ [CHR 0x27]
                 @ ''>'' @ link @ ''</a></span>'' \<rparr> \<rparr>)"

section \<open>Transport commands\<close>

definition playMedia :: "player \<Rightarrow> outcome" where
  "playMedia s =
     (let st = castPlayerState s
      in if st = LOADED \<or> st = PAUSED then
           (case currentMediaSession s of
              None \<Rightarrow> Inl (TypeError, s)
            | Some m \<Rightarrow>
                Inr (updateDisplayMessage (updateMediaControlUI (startProgressTimer
                      ((issue AddUpdateListener (issue MediaPlay s))
                       \<lparr> castPlayerState := PLAYING \<rparr>)))))
         else if st = IDLE \<or> st = LOADING \<or> st = STOPPED then
           (let s1 = loadMedia (currentMediaIndex s) s;
                s2 = (case currentMediaSession s1 of
                        Some m \<Rightarrow> issue AddUpdateListener s1
                      | None \<Rightarrow> s1)
            in Inr (updateDisplayMessage (updateMediaControlUI
                      (s2\<lparr> castPlayerState := PLAYING \<rparr>))))
         else Inr (updateDisplayMessage (updateMediaControlUI s)))"

definition pauseMediaLocally :: "player \<Rightarrow> player" where
  "pauseMediaLocally s =
     clearInterval (updateMediaControlUI
       (s\<lparr> localPlayer := (localPlayer s)\<lparr> lp_playing := False \<rparr>,
           localPlayerState := PAUSED \<rparr>))"

definition pauseMedia :: "player \<Rightarrow> player" where
  "pauseMedia s =
     (case currentMediaSession s of
        None \<Rightarrow> pauseMediaLocally s
      | Some m \<Rightarrow>
          if castPlayerState s = PLAYING
          then clearInterval (updateDisplayMessage (updateMediaControlUI
                 (issue MediaPause (s\<lparr> castPlayerState := PAUSED \<rparr>))))
          else s)"

text \<open>
  \<open>stopMediaLocally\<close> hides the local player and calls its \<open>stop()\<close>, which is taken as the
  stop operation of the local playback capability.
\<close>

definition stopMediaLocally :: "player \<Rightarrow> player" where
  "stopMediaLocally s =
     updateMediaControlUI
       (s\<lparr> localPlayer := (localPlayer s)\<lparr> lp_shown := False, lp_playing := False \<rparr>,
           localPlayerState := STOPPED \<rparr>)"

definition stopMedia :: "player \<Rightarrow> player" where
  "stopMedia s =
     (case currentMediaSession s of
        None \<Rightarrow> stopMediaLocally s
      | Some m \<Rightarrow>
          updateMediaControlUI (updateDisplayMessage (clearInterval
            ((issue MediaStop s)\<lparr> castPlayerState := STOPPED \<rparr>))))"

text \<open>The seek event: \<open>event.offsetX\<close> and \<open>event.currentTarget.id\<close>.\<close>

record seek_event =
  offsetX :: rat
  currentTarget_id :: string

definition seek_target :: "seek_event \<Rightarrow> player \<Rightarrow> int" where
  "seek_target event s =
     (let pos = parseInt (offsetX event)
      in if currentTarget_id event = ''progress_indicator''
         then parseInt (currentMediaTime s
                + currentMediaDuration s * of_int pos / of_int PROGRESS_BAR_WIDTH)
         else parseInt (of_int pos * currentMediaDuration s / of_int PROGRESS_BAR_WIDTH))"

definition seekMedia :: "seek_event \<Rightarrow> player \<Rightarrow> outcome" where
  "seekMedia event s =
     (let curr = seek_target event s
      in if castPlayerState s \<noteq> PLAYING \<and> castPlayerState s \<noteq> PAUSED then Inr s
         else
           (let s1 = s\<lparr> currentMediaTime := of_int curr \<rparr>
            in case currentMediaSession s1 of
                 None \<Rightarrow> Inl (TypeError, s1)
               | Some m \<Rightarrow>
                   Inr (updateMediaControlUI (updateDisplayMessage
                         ((issue (MediaSeek (currentMediaTime s1)) s1)
                          \<lparr> castPlayerState := SEEKING \<rparr>)))))"

definition onSeekSuccess :: "player \<Rightarrow> player" where
  "onSeekSuccess s =
     updateMediaControlUI (updateDisplayMessage (s\<lparr> castPlayerState := PLAYING \<rparr>))"

section \<open>The event loop\<close>

text \<open>
  Handlers run one at a time. Before the event that arrives at time \<open>t\<close> (milliseconds) is
  handled, every pending timeout that is due by then has run \<open>setProgressFlag\<close>. A timer
  tick is the callback of an active interval, \<open>incrementMediaTime\<close>; with no active
  interval there is no tick. The list of events gives the times at which pushes and ticks
  arrive (an interval ticks every \<open>timerStep\<close> = 1000 ms). An exception ends its handler and
  leaves the state as it is.
\<close>

definition advance :: "nat \<Rightarrow> player \<Rightarrow> player" where
  "advance t s =
     (let b = env s;
          due = filter (\<lambda>p. snd p \<le> t) (timeouts b);
          s1 = s\<lparr> env := b\<lparr> timeouts := filter (\<lambda>p. \<not> snd p \<le> t) (timeouts b),
                            clock := max t (clock b) \<rparr> \<rparr>
      in fold (\<lambda>p. setProgressFlag) due s1)"

datatype event = Push status | Tick

fun deliver :: "event \<Rightarrow> player \<Rightarrow> player" where
  "deliver (Push e) s = state_after (onMediaStatusUpdate e s)"
| "deliver Tick s = (if intervals (env s) = [] then s else incrementMediaTime s)"

fun run :: "(nat \<times> event) list \<Rightarrow> player \<Rightarrow> player" where
  "run [] s = s"
| "run ((t, ev) # evs) s = run evs (deliver ev (advance t s))"

section \<open>Steps and reachable states\<close>

text \<open>
  One step of the controller: any handler or callback run to its end (a handler that
  throws leaves the state at the throw). A tick needs an active interval. The volume
  handlers touch none of the fields modelled here. The reachable states are the
  constructor's state and what steps lead to from it.
\<close>

inductive step :: "player \<Rightarrow> player \<Rightarrow> bool" where
  s_launchApp: "step s (launchApp s)"
| s_onRequestSessionSuccess: "step s (onRequestSessionSuccess e s)"
| s_onLaunchError: "step s (onLaunchError s)"
| s_sessionListener: "step s (state_after (sessionListener e s))"
| s_stopApp: "step s (stopApp s)"
| s_onStopAppSuccess: "step s (onStopAppSuccess s)"
| s_onMediaDiscovered: "step s (state_after (onMediaDiscovered ''loadMedia'' m s))"
| s_onLoadMediaError: "step s (onLoadMediaError s)"
| s_onMediaStatusUpdate: "step s (state_after (onMediaStatusUpdate st s))"
| s_tick: "intervals (env s) \<noteq> [] \<Longrightarrow> step s (incrementMediaTime s)"
| s_advance: "step s (advance t s)"
| s_onMediaLoadedLocally: "step s (onMediaLoadedLocally ct s)"
| s_playMedia: "step s (state_after (playMedia s))"
| s_pauseMedia: "step s (pauseMedia s)"
| s_stopMedia: "step s (stopMedia s)"
| s_seekMedia: "step s (state_after (seekMedia ev s))"
| s_onSeekSuccess: "step s (onSeekSuccess s)"

inductive reachable :: "player \<Rightarrow> bool" where
  r_init: "reachable (CastPlayer url)"
| r_step: "reachable s \<Longrightarrow> step s s' \<Longrightarrow> reachable s'"

section \<open>Observations used in the statements\<close>

text \<open>The interval whose id is held in \<open>this.timer\<close> is still scheduled.\<close>

fun id_active :: "nat option \<Rightarrow> nat list \<Rightarrow> bool" where
  "id_active None xs = False"
| "id_active (Some i) xs = (i \<in> set xs)"

definition timer_active :: "player \<Rightarrow> bool" where
  "timer_active s = id_active (timer s) (intervals (env s))"

text \<open>The number of session requests the controller has issued.\<close>

definition requests :: "player \<Rightarrow> nat" where
  "requests s = length (filter (\<lambda>c. c = RequestSession) (calls s))"

text \<open>The displayed fill: the width of the bar and the offset of the indicator.\<close>

definition fill :: "player \<Rightarrow> css \<times> css" where
  "fill s = (progress_width (dom s), indicator_marginLeft (dom s))"

subsection \<open>Concrete states\<close>

text \<open>
  A controller casting a clip of 100 seconds at position 39 to the receiver \<open>TV\<close>, its
  progress timer running.
\<close>

definition casting :: player where
  "casting =
     startProgressTimer
       ((CastPlayer ''http://example.com/clip.mp4'')
        \<lparr> deviceState := DEVICE_ACTIVE,
          currentMediaSession :=
            Some \<lparr> media_duration = 100, media_playerState = PLAYING, media_currentTime = 39 \<rparr>,
          session := Some \<lparr> friendlyName = ''TV'', session_media = [] \<rparr>,
          castPlayerState := PLAYING,
          currentMediaTime := 39,
          currentMediaDuration := 100 \<rparr>)"

text \<open>A local player playing a clip of half a second, position 0.\<close>

definition short_clip :: player where
  "short_clip =
     (CastPlayer ''http://example.com/clip.mp4'')
     \<lparr> localPlayerState := PLAYING, currentMediaDuration := 1 / 2 \<rparr>"

text \<open>The play button pressed on a fresh page, with no session.\<close>

definition played_locally :: player where
  "played_locally = state_after (playMedia (CastPlayer ''http://example.com/clip.mp4''))"

definition click_middle :: seek_event where
  "click_middle = \<lparr> offsetX = 300, currentTarget_id = ''progress_bg'' \<rparr>"

text \<open>
  Two status pushes 550 ms apart (at 50 ms and 600 ms, positions 39 and 40 of the clip),
  with the tick of the running interval at 100 ms between them.
\<close>

definition push_at :: "rat \<Rightarrow> event" where
  "push_at t = Push (StatusMedia None ''PLAYING'' t)"

definition two_pushes :: "(nat \<times> event) list" where
  "two_pushes = [(50, push_at 39), (100, Tick), (600, push_at 40)]"

section \<open>Frame lemmas\<close>

lemma clear_id_nextTimerId: "nextTimerId (clear_id t b) = nextTimerId b"
  by (cases t) simp_all

lemma clear_id_clock: "clock (clear_id t b) = clock b"
  by (cases t) simp_all

lemma clear_id_intervals_Nil: "intervals b = [] \<Longrightarrow> intervals (clear_id t b) = []"
  by (cases t) simp_all

lemma clear_id_intervals_subset: "set (intervals (clear_id t b)) \<subseteq> set (intervals b)"
  by (cases t) auto

lemma clear_id_distinct: "distinct (intervals b) \<Longrightarrow> distinct (intervals (clear_id t b))"
  by (cases t) simp_all

lemma clear_id_not_active: "\<not> id_active t (intervals (clear_id t b))"
  by (cases t) simp_all

lemma issue_frame:
  "deviceState (issue c s) = deviceState s \<and> currentMediaSession (issue c s) = currentMediaSession s
   \<and> session (issue c s) = session s \<and> castPlayerState (issue c s) = castPlayerState s
   \<and> localPlayerState (issue c s) = localPlayerState s
   \<and> currentMediaTime (issue c s) = currentMediaTime s
   \<and> currentMediaDuration (issue c s) = currentMediaDuration s
   \<and> timer (issue c s) = timer s \<and> progressFlag (issue c s) = progressFlag s
   \<and> env (issue c s) = env s \<and> dom (issue c s) = dom s
   \<and> calls (issue c s) = calls s @ [c]"
  by (simp add: issue_def)

lemma clearInterval_frame:
  "deviceState (clearInterval s) = deviceState s
   \<and> currentMediaSession (clearInterval s) = currentMediaSession s
   \<and> session (clearInterval s) = session s \<and> castPlayerState (clearInterval s) = castPlayerState s
   \<and> localPlayerState (clearInterval s) = localPlayerState s
   \<and> currentMediaTime (clearInterval s) = currentMediaTime s
   \<and> currentMediaDuration (clearInterval s) = currentMediaDuration s
   \<and> timer (clearInterval s) = timer s \<and> progressFlag (clearInterval s) = progressFlag s
   \<and> calls (clearInterval s) = calls s \<and> dom (clearInterval s) = dom s
   \<and> env (clearInterval s) = clear_id (timer s) (env s)"
  by (simp add: clearInterval_def)

lemma launchApp_frame:
  "deviceState (launchApp s) = deviceState s
   \<and> currentMediaSession (launchApp s) = currentMediaSession s
   \<and> session (launchApp s) = session s \<and> castPlayerState (launchApp s) = castPlayerState s
   \<and> localPlayerState (launchApp s) = localPlayerState s
   \<and> currentMediaTime (launchApp s) = currentMediaTime s
   \<and> currentMediaDuration (launchApp s) = currentMediaDuration s
   \<and> timer (launchApp s) = timer s \<and> progressFlag (launchApp s) = progressFlag s
   \<and> calls (launchApp s) = calls s @ [RequestSession] \<and> dom (launchApp s) = dom s"
  by (simp add: launchApp_def Let_def issue_frame clearInterval_frame)

lemma launchApp_env:
  "env (launchApp s) = (if truthy (timer s) then clear_id (timer s) (env s) else env s)"
  by (simp add: launchApp_def Let_def issue_frame clearInterval_frame)

lemma updateMediaControlUI_frame:
  "deviceState (updateMediaControlUI s) = deviceState s
   \<and> currentMediaSession (updateMediaControlUI s) = currentMediaSession s
   \<and> session (updateMediaControlUI s) = session s
   \<and> castPlayerState (updateMediaControlUI s) = castPlayerState s
   \<and> localPlayerState (updateMediaControlUI s) = localPlayerState s
   \<and> currentMediaTime (updateMediaControlUI s) = currentMediaTime s
   \<and> currentMediaDuration (updateMediaControlUI s) = currentMediaDuration s
   \<and> timer (updateMediaControlUI s) = timer s
   \<and> progressFlag (updateMediaControlUI s) = progressFlag s
   \<and> calls (updateMediaControlUI s) = calls s \<and> env (updateMediaControlUI s) = env s
   \<and> progress_width (dom (updateMediaControlUI s)) = progress_width (dom s)
   \<and> indicator_marginLeft (dom (updateMediaControlUI s)) = indicator_marginLeft (dom s)"
  by (simp add: updateMediaControlUI_def Let_def)

lemma updateDisplayMessage_frame:
  "deviceState (updateDisplayMessage s) = deviceState s
   \<and> currentMediaSession (updateDisplayMessage s) = currentMediaSession s
   \<and> session (updateDisplayMessage s) = session s
   \<and> castPlayerState (updateDisplayMessage s) = castPlayerState s
   \<and> localPlayerState (updateDisplayMessage s) = localPlayerState s
   \<and> currentMediaTime (updateDisplayMessage s) = currentMediaTime s
   \<and> currentMediaDuration (updateDisplayMessage s) = currentMediaDuration s
   \<and> timer (updateDisplayMessage s) = timer s
   \<and> progressFlag (updateDisplayMessage s) = progressFlag s
   \<and> progress_width (dom (updateDisplayMessage s)) = progress_width (dom s)
   \<and> indicator_marginLeft (dom (updateDisplayMessage s)) = indicator_marginLeft (dom s)"
  by (cases "session s") (simp_all add: updateDisplayMessage_def Let_def launchApp_frame)

lemma updateDisplayMessage_calls:
  "calls (updateDisplayMessage s) =
     (case session s of None \<Rightarrow> calls s @ [RequestSession] | Some x \<Rightarrow> calls s)"
  by (cases "session s") (simp_all add: updateDisplayMessage_def Let_def launchApp_frame)

lemma updateDisplayMessage_env:
  "env (updateDisplayMessage s) =
     (case session s of
        None \<Rightarrow> (if truthy (timer s) then clear_id (timer s) (env s) else env s)
      | Some x \<Rightarrow> env s)"
  by (cases "session s") (simp_all add: updateDisplayMessage_def Let_def launchApp_env)

section \<open>The progress timer\<close>

lemma single_timer_cases:
  assumes "single_timer s"
  shows "intervals (env s) = []
         \<or> (\<exists>i. 0 < i \<and> timer s = Some i \<and> intervals (env s) = [i])"
proof (cases "intervals (env s)")
  case Nil
  then show ?thesis by simp
next
  case (Cons a list)
  with assms have a: "0 < a" "timer s = Some a" "a \<notin> set list"
      "\<forall>i\<in>set list. timer s = Some i"
    by (auto simp: single_timer_def list_all_iff)
  then have "list = []" by (cases list) auto
  with Cons a show ?thesis by simp
qed

lemma single_timer_clearInterval: "single_timer s \<Longrightarrow> single_timer (clearInterval s)"
  using clear_id_intervals_subset[of "timer s" "env s"]
  by (auto simp: single_timer_def clearInterval_def list_all_iff clear_id_nextTimerId
      clear_id_distinct)

lemma intervals_clearInterval:
  assumes "single_timer s"
  shows "intervals (env (clearInterval s)) = []"
  using single_timer_cases[OF assms]
  by (auto simp: clearInterval_def clear_id_intervals_Nil)

lemma startProgressTimer_intervals:
  assumes "single_timer s"
  shows "intervals (env (startProgressTimer s)) = [nextTimerId (env s)]"
  using single_timer_cases[OF assms] intervals_clearInterval[OF assms]
  by (auto simp: startProgressTimer_def setInterval_def Let_def clearInterval_def
      clear_id_nextTimerId)

lemma startProgressTimer_timer:
  "timer (startProgressTimer s) = Some (nextTimerId (env s))"
  by (simp add: startProgressTimer_def setInterval_def clearInterval_def Let_def
      clear_id_nextTimerId)

lemma startProgressTimer_next:
  "nextTimerId (env (startProgressTimer s)) = Suc (nextTimerId (env s))"
  by (simp add: startProgressTimer_def setInterval_def clearInterval_def Let_def
      clear_id_nextTimerId)

lemma single_timer_startProgressTimer:
  assumes "single_timer s"
  shows "single_timer (startProgressTimer s)"
  using assms startProgressTimer_intervals[OF assms] startProgressTimer_timer[of s]
    startProgressTimer_next[of s]
  by (simp add: single_timer_def)

lemma single_timer_CastPlayer: "single_timer (CastPlayer url)"
  by (simp add: single_timer_def CastPlayer_def)

text \<open>
  Claim C4. Starting the progress timer keeps the single-timer invariant: from a state in
  which every active interval is the one held in \<open>this.timer\<close>, \<open>startProgressTimer\<close> cancels
  that interval and schedules a new one, so after one call and after two calls in a row
  exactly one interval is active, it is the one held in \<open>this.timer\<close>, and \<open>this.timer\<close> is
  not null.
\<close>

theorem startProgressTimer_single:
  assumes "single_timer s"
  shows "intervals (env (startProgressTimer s)) = [nextTimerId (env s)]
       \<and> timer (startProgressTimer s) = Some (nextTimerId (env s))
       \<and> intervals (env (startProgressTimer (startProgressTimer s))) = [Suc (nextTimerId (env s))]
       \<and> timer (startProgressTimer (startProgressTimer s)) = Some (Suc (nextTimerId (env s)))
       \<and> single_timer (startProgressTimer s)"
  using assms single_timer_startProgressTimer[OF assms]
    startProgressTimer_intervals startProgressTimer_timer startProgressTimer_next
  by simp

theorem startProgressTimer_single_witness:
  "single_timer (CastPlayer ''a.mp4'')
   \<and> intervals (env (startProgressTimer (startProgressTimer (CastPlayer ''a.mp4'')))) = [2]
   \<and> timer (startProgressTimer (startProgressTimer (CastPlayer ''a.mp4''))) = Some 2"
  using startProgressTimer_single[OF single_timer_CastPlayer, of "''a.mp4''"]
  by (simp add: CastPlayer_def single_timer_def)

section \<open>Suppression of timer updates after a status push\<close>

text \<open>
  A tick while \<open>progressFlag\<close> is false leaves a displayed fill that holds a length as it is.
\<close>

lemma updateProgressBarByTimer_suppressed:
  assumes "\<not> progressFlag s" and "\<not> no_int (progress_width (dom s))"
  shows "fill (updateProgressBarByTimer s) = fill s"
  using assms
  by (simp add: updateProgressBarByTimer_def fill_def Let_def updateMediaControlUI_frame
      updateDisplayMessage_frame clearInterval_frame)

lemma incrementMediaTime_suppressed:
  assumes "\<not> progressFlag s" and "\<not> no_int (progress_width (dom s))"
  shows "fill (incrementMediaTime s) = fill s"
proof -
  have "fill (updateProgressBarByTimer (s\<lparr> currentMediaTime := currentMediaTime s + 1 \<rparr>))
      = fill (s\<lparr> currentMediaTime := currentMediaTime s + 1 \<rparr>)"
    using assms by (intro updateProgressBarByTimer_suppressed) simp_all
  then show ?thesis
    by (simp add: incrementMediaTime_def fill_def clearInterval_frame)
qed

text \<open>
  With no timeout pending at the push, a tick less than a second after a push that shows
  a length leaves the pushed fill as it is.
\<close>

lemma push_then_tick:
  assumes pending: "timeouts (env s) = []"
    and now: "clock (env s) \<le> t0"
    and window: "t1 < t0 + 1000"
    and push: "\<not> finished e" "currentMediaSession s = Some m" "session s = Some c"
    and width: "\<not> no_int (push_width (status_currentTime e) (media_duration m))"
  shows "fill (run [(t0, Push e), (t1, Tick)] s) = fill (run [(t0, Push e)] s)"
proof -
  define a where "a = advance t0 s"
  define p where "p = deliver (Push e) a"
  define q where "q = advance t1 p"
  have a: "timeouts (env a) = []" "clock (env a) = t0" "currentMediaSession a = Some m"
      "session a = Some c"
    using pending now push by (simp_all add: a_def advance_def Let_def max_def)
  let ?a1 = "if status_is_false e then a\<lparr> currentMediaTime := 0, castPlayerState := IDLE \<rparr> else a"
  let ?w = "push_width (status_currentTime e) (media_duration m)"
  let ?s2 = "setTimeout (?a1\<lparr> dom := (dom ?a1)\<lparr> progress_width := ?w \<rparr>, progressFlag := False \<rparr>)"
  have upb: "updateProgressBar e ?a1 =
      Inr (?s2\<lparr> dom := (dom ?s2)\<lparr> indicator_marginLeft :=
                          push_margin (status_currentTime e) (media_duration m) \<rparr> \<rparr>)"
    using push a by (simp add: updateProgressBar_def Let_def)
  have s2: "\<not> progressFlag ?s2" "progress_width (dom ?s2) = ?w"
      "timeouts (env ?s2) = [(nextTimerId (env a), t0 + 1000)]" "session ?s2 = Some c"
    using a by (simp_all add: setTimeout_def Let_def)
  have p: "\<not> progressFlag p" "progress_width (dom p) = ?w"
      "timeouts (env p) = [(nextTimerId (env a), t0 + 1000)]"
    using s2
    by (simp_all add: p_def onMediaStatusUpdate_def Let_def upb updateMediaControlUI_frame
        updateDisplayMessage_frame updateDisplayMessage_env)
  have q: "\<not> progressFlag q" "dom q = dom p"
    using p window by (simp_all add: q_def advance_def Let_def)
  have "fill (deliver Tick q) = fill q"
    using q p width by (simp add: incrementMediaTime_suppressed)
  also have "fill q = fill p"
    using q by (simp add: fill_def)
  finally show ?thesis
    by (simp add: a_def p_def q_def)
qed

text \<open>
  Claim C1. The source means a tick within one second of a status push to leave the
  pushed fill alone (\<open>don't update progress in 1 second\<close>). Every push schedules its own
  \<open>setProgressFlag\<close> and none is ever cancelled, so the timeout of an earlier push ends the
  window of a later one early. On the 100 second clip: pushes at 50 ms (position 39) and
  600 ms (position 40) leave the fill of the second push, 241 px; the tick at 1100 ms,
  500 ms after the second push, finds the flag set again by the first push's timeout and
  overwrites the fill with its own 246 px.
\<close>

theorem tick_overwrites_second_push:
  "fill (run two_pushes casting) = (Px 241, Px (- 381))
   \<and> fill (run (two_pushes @ [(1100, Tick)]) casting) = (Px 246, Px (- 375))"
  by code_simp

section \<open>Seeking\<close>

lemma seekMedia_rejected:
  assumes "castPlayerState s \<noteq> PLAYING" and "castPlayerState s \<noteq> PAUSED"
  shows "seekMedia event s = Inr s"
  using assms by (simp add: seekMedia_def Let_def)

lemma seekMedia_accepted:
  assumes "castPlayerState s = PLAYING \<or> castPlayerState s = PAUSED"
    and "currentMediaSession s = Some m"
  shows "\<not> threw (seekMedia event s)
       \<and> currentMediaTime (state_after (seekMedia event s)) = of_int (seek_target event s)
       \<and> castPlayerState (state_after (seekMedia event s)) = SEEKING
       \<and> MediaSeek (of_int (seek_target event s)) \<in> set (calls (state_after (seekMedia event s)))"
  using assms
  by (auto simp: seekMedia_def Let_def updateMediaControlUI_frame updateDisplayMessage_frame
      updateDisplayMessage_calls issue_frame issue_def split: option.splits)

lemma onSeekSuccess_playing: "castPlayerState (onSeekSuccess s) = PLAYING"
  by (simp add: onSeekSuccess_def updateMediaControlUI_frame updateDisplayMessage_frame)

text \<open>
  Claim C5. A seek is accepted from Playing and Paused only, and an accepted seek is meant
  to issue the remote seek and enter Seeking. \<open>seekMedia\<close> calls
  \<open>this.currentMediaSession.seek\<close> without the null check that \<open>pauseMedia\<close> and
  \<open>stopMedia\<close> make. After the play button on a fresh page the state is Playing with no
  media session; a click on the progress bar then assigns \<open>currentMediaTime\<close> and throws:
  no seek is issued and the state stays Playing.
\<close>

theorem seekMedia_throws_without_media_session:
  "castPlayerState played_locally = PLAYING
   \<and> currentMediaSession played_locally = None
   \<and> threw (seekMedia click_middle played_locally)
   \<and> castPlayerState (state_after (seekMedia click_middle played_locally)) = PLAYING
   \<and> calls (state_after (seekMedia click_middle played_locally)) = calls played_locally"
  by code_simp

section \<open>The content type of a load request\<close>

lemma split_on_not_Nil: "split_on c xs \<noteq> []"
  by (induction xs) (auto split: list.splits)

lemma split_on_no_sep: "c \<notin> set xs \<Longrightarrow> split_on c xs = [xs]"
  by (induction xs) auto

lemma split_on_two: "\<exists>p q qs. split_on c (xs @ c # ys) = p # q # qs"
proof (induction xs)
  case Nil
  then show ?case using split_on_not_Nil[of c ys] by (cases "split_on c ys") auto
next
  case (Cons x xs)
  then show ?case by auto
qed

lemma last_split_on_append: "last (split_on c (xs @ c # ys)) = last (split_on c ys)"
proof (induction xs)
  case Nil
  show ?case by (simp add: split_on_not_Nil)
next
  case (Cons x xs)
  obtain p q qs where "split_on c (xs @ c # ys) = p # q # qs"
    using split_on_two by blast
  with Cons show ?case by auto
qed

lemma extension_suffix:
  assumes "CHR ''.'' \<notin> set e"
  shows "extension (base @ ''.'' @ e) = e"
  using assms last_split_on_append[of "CHR ''.''" base e]
  by (simp add: extension_def split_on_no_sep)

lemma load_contentType_video:
  assumes "e = ''webm'' \<or> e = ''mp4''"
  shows "load_contentType (base @ ''.'' @ e) = ''video/'' @ e"
proof -
  from assms have "extension (base @ ''.'' @ e) = e"
    by (intro extension_suffix) auto
  with assms show ?thesis
    by (auto simp: load_contentType_def getContentType_def Let_def exts_def formats_def)
qed

lemma load_contentType_image:
  assumes "e = ''jpeg'' \<or> e = ''jpg'' \<or> e = ''gif'' \<or> e = ''png'' \<or> e = ''bmp'' \<or> e = ''webp''"
  shows "load_contentType (base @ ''.'' @ e) = ''image/'' @ e"
proof -
  from assms have "extension (base @ ''.'' @ e) = e"
    by (intro extension_suffix) auto
  with assms show ?thesis
    by (auto simp: load_contentType_def getContentType_def Let_def exts_def formats_def)
qed

lemma indexOf_absent: "x \<notin> set ys \<Longrightarrow> indexOf ys x = - 1"
  by (induction ys) (auto simp: Let_def)

lemma load_contentType_default:
  assumes "extension url \<notin> set exts"
  shows "load_contentType url = ''video/mp4''"
  using indexOf_absent[OF assms] by (simp add: load_contentType_def Let_def)

lemma load_contentType_mkv: "load_contentType (base @ ''.mkv'') = ''video/mp4''"
proof -
  have "extension (base @ ''.'' @ ''mkv'') = ''mkv''"
    by (intro extension_suffix) auto
  then show ?thesis
    by (simp add: load_contentType_def Let_def exts_def)
qed

text \<open>
  Claim C6. The content type of a load request follows the extension table, with
  \<open>video/mp4\<close> for an extension outside it. \<open>loadMedia\<close> tests \<open>exts.indexOf(ext) > 0\<close>, and
  \<open>mkv\<close> is the entry at index 0: a \<open>.mkv\<close> link is loaded as \<open>video/mp4\<close>, although
  \<open>getContentType\<close> maps it to \<open>video/mkv\<close> as the table says.
\<close>

theorem mkv_loaded_as_mp4:
  "load_contentType ''http://example.com/movie.mkv'' = ''video/mp4''
   \<and> getContentType ''http://example.com/movie.mkv'' = ''video/mkv''
   \<and> calls (loadMedia 0
         (casting\<lparr> dom := (dom casting)\<lparr> video_link := ''http://example.com/movie.mkv'' \<rparr> \<rparr>))
       = [LoadMedia ''video/mp4'' True 0]"
  by code_simp

section \<open>The duration string\<close>

text \<open>
  Claim C8. Both load paths are meant to show \<open>H:MM:SS\<close>, \<open>M:SS\<close> or the zero-padded seconds.
  For a duration below one minute the remote path calls \<open>leftPad(sec,2)\<close> and drops the
  result, so the page receives the number itself: 5 seconds show as \<open>5\<close> where the local
  path shows \<open>05\<close>. With hours, neither path pads the minutes: 3665 seconds show as
  \<open>1:1:05\<close>.
\<close>

theorem remote_duration_not_padded:
  "format_local 5 = Text ''05''
   \<and> format_remote 5 = Number 5
   \<and> format_local 3665 = Text ''1:1:05''
   \<and> format_remote 3665 = Text ''1:1:05''"
  by code_simp

section \<open>Timer cancellation through the display updates\<close>

lemma id_active_clear_id: "\<not> id_active t (intervals b) \<Longrightarrow> \<not> id_active t (intervals (clear_id t' b))"
  using clear_id_intervals_subset[of t' b] by (cases t) auto

lemma timer_active_clearInterval: "\<not> timer_active (clearInterval s)"
  by (simp add: timer_active_def clearInterval_frame clear_id_not_active)

lemma timer_active_updateMediaControlUI: "timer_active (updateMediaControlUI s) = timer_active s"
  by (simp add: timer_active_def updateMediaControlUI_frame)

lemma timer_active_updateDisplayMessage:
  "\<not> timer_active s \<Longrightarrow> \<not> timer_active (updateDisplayMessage s)"
  by (cases "session s")
     (simp_all add: timer_active_def updateDisplayMessage_frame updateDisplayMessage_env
        id_active_clear_id)

lemma intervals_Nil_updateDisplayMessage:
  "intervals (env s) = [] \<Longrightarrow> intervals (env (updateDisplayMessage s)) = []"
  by (cases "session s") (simp_all add: updateDisplayMessage_env clear_id_intervals_Nil)

lemma single_timer_updateDisplayMessage:
  "single_timer s \<Longrightarrow> single_timer (updateDisplayMessage s)"
  using clear_id_intervals_subset[of "timer s" "env s"]
  by (cases "session s")
     (auto simp: single_timer_def updateDisplayMessage_env updateDisplayMessage_frame
        list_all_iff clear_id_nextTimerId clear_id_distinct)

section \<open>Status pushes\<close>

lemma updateProgressBar_finished:
  "updateProgressBar (StatusMedia (Some ''FINISHED'') ''IDLE'' t) s =
     Inr (updateDisplayMessage
           ((clearInterval
              (s\<lparr> dom := (dom s)\<lparr> progress_width := Px 0,
                     indicator_marginLeft := Px (- 21 - PROGRESS_BAR_WIDTH) \<rparr> \<rparr>))
            \<lparr> castPlayerState := STOPPED \<rparr>))"
  by (simp add: updateProgressBar_def finished_def)

text \<open>
  Claim C2. A status push with \<open>idleReason\<close> FINISHED and \<open>playerState\<close> IDLE does not throw,
  sets the bar to width 0 and the indicator to its left origin (\<open>-621px\<close>), cancels the
  interval held in \<open>this.timer\<close> (under the single-timer invariant no interval is left) and
  sets \<open>castPlayerState\<close> to Stopped. The listener called with \<open>false\<close> sets
  \<open>currentMediaTime\<close> to 0 and \<open>castPlayerState\<close> to Idle, whether or not the later progress
  update throws.
\<close>

theorem finished_push_resets:
  "\<not> threw (onMediaStatusUpdate (StatusMedia (Some ''FINISHED'') ''IDLE'' t) s)
   \<and> fill (state_after (onMediaStatusUpdate (StatusMedia (Some ''FINISHED'') ''IDLE'' t) s))
       = (Px 0, Px (- 621))
   \<and> castPlayerState (state_after (onMediaStatusUpdate (StatusMedia (Some ''FINISHED'') ''IDLE'' t) s))
       = STOPPED
   \<and> \<not> timer_active (state_after (onMediaStatusUpdate (StatusMedia (Some ''FINISHED'') ''IDLE'' t) s))
   \<and> (single_timer s \<longrightarrow>
        intervals (env (state_after
          (onMediaStatusUpdate (StatusMedia (Some ''FINISHED'') ''IDLE'' t) s))) = [])
   \<and> currentMediaTime (state_after (onMediaStatusUpdate (StatusFlag False) s)) = 0
   \<and> castPlayerState (state_after (onMediaStatusUpdate (StatusFlag False) s)) = IDLE"
proof -
  let ?e = "StatusMedia (Some ''FINISHED'') ''IDLE'' t"
  let ?s0 = "s\<lparr> dom := (dom s)\<lparr> progress_width := Px 0,
                 indicator_marginLeft := Px (- 21 - PROGRESS_BAR_WIDTH) \<rparr> \<rparr>"
  let ?s1 = "(clearInterval ?s0)\<lparr> castPlayerState := STOPPED \<rparr>"
  let ?s' = "updateMediaControlUI (updateDisplayMessage (updateDisplayMessage ?s1))"
  have run: "onMediaStatusUpdate ?e s = Inr ?s'"
    by (simp add: onMediaStatusUpdate_def updateProgressBar_finished)
  have fill: "fill ?s' = (Px 0, Px (- 621))"
    by (simp add: fill_def updateMediaControlUI_frame updateDisplayMessage_frame
        clearInterval_frame PROGRESS_BAR_WIDTH_def)
  have st: "castPlayerState ?s' = STOPPED"
    by (simp add: updateMediaControlUI_frame updateDisplayMessage_frame)
  have "\<not> timer_active (clearInterval ?s0)"
    by (rule timer_active_clearInterval)
  then have "\<not> timer_active ?s1"
    by (simp add: timer_active_def)
  then have act: "\<not> timer_active ?s'"
    by (simp add: timer_active_updateMediaControlUI timer_active_updateDisplayMessage)
  have none: "intervals (env ?s') = []" if "single_timer s"
  proof -
    from that have "single_timer ?s0" by (simp add: single_timer_def)
    then have "intervals (env (clearInterval ?s0)) = []" by (rule intervals_clearInterval)
    then have "intervals (env ?s1) = []" by simp
    then show ?thesis
      by (simp add: updateMediaControlUI_frame intervals_Nil_updateDisplayMessage)
  qed
  have false: "currentMediaTime (state_after (onMediaStatusUpdate (StatusFlag False) s)) = 0
      \<and> castPlayerState (state_after (onMediaStatusUpdate (StatusFlag False) s)) = IDLE"
    by (cases "currentMediaSession s")
       (simp_all add: onMediaStatusUpdate_def updateProgressBar_def finished_def Let_def
          setTimeout_def updateMediaControlUI_frame updateDisplayMessage_frame)
  from run fill st act none false show ?thesis by simp
qed

theorem finished_push_resets_witness:
  "single_timer casting
   \<and> intervals (env casting) = [1]
   \<and> intervals (env (state_after
        (onMediaStatusUpdate (StatusMedia (Some ''FINISHED'') ''IDLE'' 100) casting))) = []
   \<and> castPlayerState (state_after
        (onMediaStatusUpdate (StatusMedia (Some ''FINISHED'') ''IDLE'' 100) casting)) = STOPPED"
proof -
  have h: "single_timer casting" by code_simp
  have i: "intervals (env casting) = [1]" by code_simp
  from h i finished_push_resets[of 100 casting] show ?thesis by simp
qed

section \<open>Ticks\<close>

lemma updateProgressBarByTimer_frame:
  "currentMediaTime (updateProgressBarByTimer s) = currentMediaTime s
   \<and> currentMediaDuration (updateProgressBarByTimer s) = currentMediaDuration s
   \<and> timer (updateProgressBarByTimer s) = timer s
   \<and> session (updateProgressBarByTimer s) = session s
   \<and> currentMediaSession (updateProgressBarByTimer s) = currentMediaSession s
   \<and> localPlayerState (updateProgressBarByTimer s) = localPlayerState s"
  by (simp add: updateProgressBarByTimer_def Let_def updateMediaControlUI_frame
      updateDisplayMessage_frame clearInterval_frame)

text \<open>
  Claim C3, as stated, fails: the tick adds one second whenever the position is below the
  duration, with no cap. On a clip of half a second the position 0 satisfies
  \<open>0 \<le> currentMediaTime \<le> duration\<close>, and one tick moves it to 1, past the duration.
\<close>

theorem incrementMediaTime_short_clip:
  "0 \<le> currentMediaTime short_clip
   \<and> currentMediaTime short_clip \<le> currentMediaDuration short_clip
   \<and> 0 \<le> currentMediaDuration short_clip
   \<and> localPlayerState short_clip = PLAYING
   \<and> currentMediaTime (incrementMediaTime short_clip) = 1
   \<and> currentMediaDuration (incrementMediaTime short_clip) = 1 / 2
   \<and> \<not> currentMediaTime (incrementMediaTime short_clip)
        \<le> currentMediaDuration (incrementMediaTime short_clip)"
  by code_simp

text \<open>
  Claim C3, amended. A tick leaves the duration alone. While either player state is
  Playing: below the duration the position advances by exactly one second; at or past
  the duration it is reset to 0 and the interval held in \<open>this.timer\<close> is cancelled. With
  neither state Playing the tick changes nothing. A position that is not negative stays
  so; a position within a duration that is not negative stays below the duration plus
  one second, and stays within the duration when the distance to it is a whole number of
  seconds.
\<close>

theorem incrementMediaTime_tick:
  "currentMediaDuration (incrementMediaTime s) = currentMediaDuration s
   \<and> ((castPlayerState s = PLAYING \<or> localPlayerState s = PLAYING)
        \<and> currentMediaTime s < currentMediaDuration s
       \<longrightarrow> currentMediaTime (incrementMediaTime s) = currentMediaTime s + 1)
   \<and> ((castPlayerState s = PLAYING \<or> localPlayerState s = PLAYING)
        \<and> \<not> currentMediaTime s < currentMediaDuration s
       \<longrightarrow> currentMediaTime (incrementMediaTime s) = 0 \<and> \<not> timer_active (incrementMediaTime s))
   \<and> (castPlayerState s \<noteq> PLAYING \<and> localPlayerState s \<noteq> PLAYING
       \<longrightarrow> incrementMediaTime s = s)
   \<and> (0 \<le> currentMediaTime s \<longrightarrow> 0 \<le> currentMediaTime (incrementMediaTime s))
   \<and> (0 \<le> currentMediaDuration s \<and> currentMediaTime s \<le> currentMediaDuration s
       \<longrightarrow> currentMediaTime (incrementMediaTime s) < currentMediaDuration s + 1)
   \<and> (0 \<le> currentMediaDuration s \<and> currentMediaTime s \<le> currentMediaDuration s
        \<and> of_int \<lfloor>currentMediaDuration s - currentMediaTime s\<rfloor>
            = currentMediaDuration s - currentMediaTime s
       \<longrightarrow> currentMediaTime (incrementMediaTime s) \<le> currentMediaDuration s)"
proof -
  have d: "currentMediaDuration (incrementMediaTime s) = currentMediaDuration s"
    by (simp add: incrementMediaTime_def updateProgressBarByTimer_frame clearInterval_frame)
  have adv: "currentMediaTime (incrementMediaTime s) = currentMediaTime s + 1"
    if "castPlayerState s = PLAYING \<or> localPlayerState s = PLAYING"
      and "currentMediaTime s < currentMediaDuration s"
    using that by (auto simp: incrementMediaTime_def updateProgressBarByTimer_frame)
  have reset: "currentMediaTime (incrementMediaTime s) = 0 \<and> \<not> timer_active (incrementMediaTime s)"
    if "castPlayerState s = PLAYING \<or> localPlayerState s = PLAYING"
      and "\<not> currentMediaTime s < currentMediaDuration s"
    using that by (auto simp: incrementMediaTime_def clearInterval_frame timer_active_clearInterval)
  have idle: "incrementMediaTime s = s"
    if "castPlayerState s \<noteq> PLAYING \<and> localPlayerState s \<noteq> PLAYING"
    using that by (simp add: incrementMediaTime_def)
  have cases: "currentMediaTime (incrementMediaTime s) = currentMediaTime s + 1
        \<and> currentMediaTime s < currentMediaDuration s
      \<or> currentMediaTime (incrementMediaTime s) = 0 \<and> \<not> currentMediaTime s < currentMediaDuration s
      \<or> currentMediaTime (incrementMediaTime s) = currentMediaTime s"
    using adv reset idle
    by (cases "castPlayerState s = PLAYING \<or> localPlayerState s = PLAYING";
        cases "currentMediaTime s < currentMediaDuration s") auto
  have nonneg: "0 \<le> currentMediaTime (incrementMediaTime s)" if "0 \<le> currentMediaTime s"
    using that cases by auto
  have bound: "currentMediaTime (incrementMediaTime s) < currentMediaDuration s + 1"
    if "0 \<le> currentMediaDuration s \<and> currentMediaTime s \<le> currentMediaDuration s"
    using that cases by auto
  have whole: "currentMediaTime (incrementMediaTime s) \<le> currentMediaDuration s"
    if h: "0 \<le> currentMediaDuration s \<and> currentMediaTime s \<le> currentMediaDuration s
        \<and> of_int \<lfloor>currentMediaDuration s - currentMediaTime s\<rfloor>
            = currentMediaDuration s - currentMediaTime s"
  proof -
    have "currentMediaTime s + 1 \<le> currentMediaDuration s"
      if lt: "currentMediaTime s < currentMediaDuration s"
    proof -
      define D where "D = currentMediaDuration s - currentMediaTime s"
      from h have eq: "rat_of_int \<lfloor>D\<rfloor> = D" unfolding D_def by blast
      from lt have "0 < D" by (simp add: D_def)
      then have "0 < rat_of_int \<lfloor>D\<rfloor>" by (simp only: eq)
      then have "0 < \<lfloor>D\<rfloor>" by (simp only: of_int_0_less_iff)
      then have "1 \<le> \<lfloor>D\<rfloor>" by linarith
      then have "1 \<le> rat_of_int \<lfloor>D\<rfloor>" by (simp only: of_int_1_le_iff)
      then have "1 \<le> D" by (simp only: eq)
      then show ?thesis by (simp add: D_def)
    qed
    with h cases show ?thesis by auto
  qed
  from d adv reset idle nonneg bound whole show ?thesis by blast
qed

theorem incrementMediaTime_tick_witness:
  "castPlayerState casting = PLAYING
   \<and> currentMediaTime casting = 39 \<and> currentMediaDuration casting = 100
   \<and> currentMediaTime (incrementMediaTime casting) = 40
   \<and> currentMediaTime (incrementMediaTime casting) \<le> currentMediaDuration casting
   \<and> currentMediaTime (incrementMediaTime (casting\<lparr> currentMediaTime := 100 \<rparr>)) = 0
   \<and> \<not> timer_active (incrementMediaTime (casting\<lparr> currentMediaTime := 100 \<rparr>))
   \<and> incrementMediaTime (CastPlayer ''a.mp4'') = CastPlayer ''a.mp4''"
proof -
  have c: "castPlayerState casting = PLAYING" "currentMediaTime casting = 39"
      "currentMediaDuration casting = 100"
    by code_simp+
  have i: "castPlayerState (CastPlayer ''a.mp4'') \<noteq> PLAYING
      \<and> localPlayerState (CastPlayer ''a.mp4'') \<noteq> PLAYING"
    by (simp add: CastPlayer_def)
  from c i incrementMediaTime_tick[of casting]
    incrementMediaTime_tick[of "casting\<lparr> currentMediaTime := 100 \<rparr>"]
    incrementMediaTime_tick[of "CastPlayer ''a.mp4''"]
  show ?thesis by simp
qed

section \<open>Stopping the application\<close>

text \<open>
  Claim C7, as stated, fails in its last part: \<open>onStopAppSuccess\<close> does not assign
  \<open>this.session\<close>, and no other handler clears it. After a stop of the casting controller
  the session handle is still the one of the receiver \<open>TV\<close>.
\<close>

theorem onStopAppSuccess_keeps_session:
  "session casting = Some \<lparr> friendlyName = ''TV'', session_media = [] \<rparr>
   \<and> session (onStopAppSuccess (stopApp casting)) = Some \<lparr> friendlyName = ''TV'', session_media = [] \<rparr>"
  by code_simp

text \<open>
  Claim C7, amended. \<open>stopApp\<close> asks a present session to stop (and does nothing without
  one). Its success callback sets \<open>deviceState\<close> and \<open>castPlayerState\<close> to Idle, clears
  \<open>currentMediaSession\<close>, cancels the interval held in \<open>this.timer\<close> (under the single-timer
  invariant no interval is left) and leaves \<open>this.session\<close> as it was.
\<close>

theorem onStopAppSuccess_ends_playback:
  "deviceState (onStopAppSuccess s) = DEVICE_IDLE
   \<and> castPlayerState (onStopAppSuccess s) = IDLE
   \<and> currentMediaSession (onStopAppSuccess s) = None
   \<and> \<not> timer_active (onStopAppSuccess s)
   \<and> (single_timer s \<longrightarrow> intervals (env (onStopAppSuccess s)) = [])
   \<and> session (onStopAppSuccess s) = session s
   \<and> (session s \<noteq> None \<longrightarrow> calls (stopApp s) = calls s @ [SessionStop])
   \<and> (session s = None \<longrightarrow> stopApp s = s)"
proof -
  let ?s0 = "s\<lparr> deviceState := DEVICE_IDLE, castPlayerState := IDLE, currentMediaSession := None \<rparr>"
  have fields: "deviceState (onStopAppSuccess s) = DEVICE_IDLE
      \<and> castPlayerState (onStopAppSuccess s) = IDLE
      \<and> currentMediaSession (onStopAppSuccess s) = None
      \<and> session (onStopAppSuccess s) = session s"
    by (simp add: onStopAppSuccess_def updateMediaControlUI_frame updateDisplayMessage_frame
        clearInterval_frame)
  have act: "\<not> timer_active (onStopAppSuccess s)"
    by (simp add: onStopAppSuccess_def timer_active_updateMediaControlUI
        timer_active_updateDisplayMessage timer_active_clearInterval)
  have none: "intervals (env (onStopAppSuccess s)) = []" if "single_timer s"
  proof -
    from that have "single_timer ?s0" by (simp add: single_timer_def)
    then have "intervals (env (clearInterval ?s0)) = []" by (rule intervals_clearInterval)
    then show ?thesis
      by (simp add: onStopAppSuccess_def updateMediaControlUI_frame
          intervals_Nil_updateDisplayMessage)
  qed
  have stop: "calls (stopApp s) = calls s @ [SessionStop]" if "session s \<noteq> None"
    using that by (auto simp: stopApp_def issue_def)
  have nostop: "stopApp s = s" if "session s = None"
    using that by (simp add: stopApp_def)
  from fields act none stop nostop show ?thesis by blast
qed

theorem onStopAppSuccess_ends_playback_witness:
  "single_timer casting \<and> session casting \<noteq> None
   \<and> intervals (env casting) = [1]
   \<and> intervals (env (onStopAppSuccess casting)) = []
   \<and> calls (stopApp casting) = [SessionStop]
   \<and> castPlayerState (onStopAppSuccess casting) = IDLE"
proof -
  have h: "single_timer casting" by code_simp
  have i: "intervals (env casting) = [1]" "calls casting = []" "session casting \<noteq> None"
    by code_simp+
  from h i onStopAppSuccess_ends_playback[of casting] show ?thesis by simp
qed

section \<open>Play without a session\<close>

lemma loadMedia_no_session: "session s = None \<Longrightarrow> loadMedia i s = s"
  by (simp add: loadMedia_def)

lemma loadMedia_frame:
  "session (loadMedia i s) = session s
   \<and> currentMediaSession (loadMedia i s) = currentMediaSession s
   \<and> timer (loadMedia i s) = timer s \<and> env (loadMedia i s) = env s"
  by (cases "session s") (simp_all add: loadMedia_def Let_def issue_frame)

text \<open>
  Claim C9. \<open>playMedia\<close> from Idle, Loading or Stopped does not throw and returns with
  \<open>castPlayerState\<close> Playing, the session and the media session being what they were; with
  no session the inner \<open>loadMedia\<close> changes nothing. On a fresh page the result is Playing
  with neither a session nor a media session, and the only remote call is the session
  request of the display message.
\<close>

theorem playMedia_sets_playing:
  "((castPlayerState s = IDLE \<or> castPlayerState s = LOADING \<or> castPlayerState s = STOPPED)
     \<longrightarrow> \<not> threw (playMedia s)
        \<and> castPlayerState (state_after (playMedia s)) = PLAYING
        \<and> session (state_after (playMedia s)) = session s
        \<and> currentMediaSession (state_after (playMedia s)) = currentMediaSession s)
   \<and> (session s = None \<longrightarrow> loadMedia (currentMediaIndex s) s = s)
   \<and> castPlayerState (state_after (playMedia (CastPlayer url))) = PLAYING
   \<and> session (state_after (playMedia (CastPlayer url))) = None
   \<and> currentMediaSession (state_after (playMedia (CastPlayer url))) = None
   \<and> calls (state_after (playMedia (CastPlayer url))) = [RequestSession]"
proof -
  have gen: "\<not> threw (playMedia s)
        \<and> castPlayerState (state_after (playMedia s)) = PLAYING
        \<and> session (state_after (playMedia s)) = session s
        \<and> currentMediaSession (state_after (playMedia s)) = currentMediaSession s"
    if "castPlayerState s = IDLE \<or> castPlayerState s = LOADING \<or> castPlayerState s = STOPPED"
    using that
    by (auto simp: playMedia_def Let_def updateMediaControlUI_frame updateDisplayMessage_frame
        loadMedia_frame issue_frame split: option.splits)
  have init: "castPlayerState (state_after (playMedia (CastPlayer url))) = PLAYING
   \<and> session (state_after (playMedia (CastPlayer url))) = None
   \<and> currentMediaSession (state_after (playMedia (CastPlayer url))) = None
   \<and> calls (state_after (playMedia (CastPlayer url))) = [RequestSession]"
    by (simp add: playMedia_def Let_def updateMediaControlUI_frame updateDisplayMessage_frame
        updateDisplayMessage_calls loadMedia_def CastPlayer_def updateMediaControlUI_def)
  from gen init loadMedia_no_session show ?thesis by blast
qed

theorem playMedia_sets_playing_witness:
  "castPlayerState (CastPlayer ''a.mp4'') = IDLE \<and> session (CastPlayer ''a.mp4'') = None
   \<and> castPlayerState (state_after (playMedia (CastPlayer ''a.mp4''))) = PLAYING
   \<and> session (state_after (playMedia (CastPlayer ''a.mp4''))) = None
   \<and> currentMediaSession (state_after (playMedia (CastPlayer ''a.mp4''))) = None
   \<and> loadMedia 0 (CastPlayer ''a.mp4'') = CastPlayer ''a.mp4''"
proof -
  have c: "castPlayerState (CastPlayer ''a.mp4'') = IDLE" "session (CastPlayer ''a.mp4'') = None"
      "currentMediaIndex (CastPlayer ''a.mp4'') = 0"
      "currentMediaSession (CastPlayer ''a.mp4'') = None"
    by (simp_all add: CastPlayer_def)
  from c playMedia_sets_playing[of "CastPlayer ''a.mp4''" "''a.mp4''"] show ?thesis by simp
qed

section \<open>Session requests from the display message\<close>

lemma requests_issue:
  "requests (issue c s) = (if c = RequestSession then Suc (requests s) else requests s)"
  by (simp add: requests_def issue_def)

lemma requests_updateDisplayMessage:
  "requests (updateDisplayMessage s) =
     (case session s of None \<Rightarrow> Suc (requests s) | Some x \<Rightarrow> requests s)"
  by (cases "session s") (simp_all add: requests_def updateDisplayMessage_calls)

lemma requests_updateMediaControlUI: "requests (updateMediaControlUI s) = requests s"
  by (simp add: requests_def updateMediaControlUI_frame)

lemma requests_clearInterval: "requests (clearInterval s) = requests s"
  by (simp add: requests_def clearInterval_frame)

lemma startProgressTimer_frame:
  "session (startProgressTimer s) = session s
   \<and> currentMediaSession (startProgressTimer s) = currentMediaSession s
   \<and> castPlayerState (startProgressTimer s) = castPlayerState s
   \<and> calls (startProgressTimer s) = calls s"
  by (simp add: startProgressTimer_def setInterval_def Let_def clearInterval_frame)

lemma requests_startProgressTimer: "requests (startProgressTimer s) = requests s"
  by (simp add: requests_def startProgressTimer_frame)

lemma requests_loadMedia: "requests (loadMedia i s) = requests s"
proof (cases "session s")
  case None
  then show ?thesis by (simp add: loadMedia_def)
next
  case (Some sess)
  have "\<And>x. requests (x\<lparr> castPlayerState := LOADING \<rparr>) = requests x"
    by (simp add: requests_def)
  with Some show ?thesis by (simp add: loadMedia_def Let_def requests_issue)
qed

lemma requests_playMedia:
  assumes "session s = None" and "\<not> threw (playMedia s)"
  shows "requests (state_after (playMedia s)) = Suc (requests s)"
proof -
  have upd: "\<And>x. requests (x\<lparr> castPlayerState := PLAYING \<rparr>) = requests x"
    by (simp add: requests_def)
  have ses: "\<And>x c. session (issue c x) = session x"
    by (simp add: issue_frame)
  from assms show ?thesis
    by (auto simp: playMedia_def Let_def requests_updateDisplayMessage
        requests_updateMediaControlUI updateMediaControlUI_frame startProgressTimer_frame
        requests_startProgressTimer requests_issue requests_loadMedia loadMedia_frame upd ses
        split: option.splits if_splits)
qed

lemma requests_onLoadMediaError:
  assumes "session s = None"
  shows "requests (onLoadMediaError s) = Suc (requests s)"
proof -
  have "requests (updateDisplayMessage (updateMediaControlUI (s\<lparr> castPlayerState := IDLE \<rparr>)))
      = Suc (requests s)"
    using assms
    by (simp add: requests_updateDisplayMessage updateMediaControlUI_frame
        requests_updateMediaControlUI) (simp add: requests_def)
  then show ?thesis
    by (simp add: onLoadMediaError_def Let_def requests_def)
qed

lemma requests_status_finished:
  assumes "session s = None" and "finished e"
  shows "requests (state_after (onMediaStatusUpdate e s)) = Suc (Suc (requests s))"
proof -
  have upd: "\<And>x f g. requests (x\<lparr> castPlayerState := f, dom := g \<rparr>) = requests x"
      "\<And>x f. requests (x\<lparr> castPlayerState := f \<rparr>) = requests x"
      "\<And>x g. requests (x\<lparr> dom := g \<rparr>) = requests x"
      "\<And>x f g. requests (x\<lparr> currentMediaTime := f, castPlayerState := g \<rparr>) = requests x"
      "\<And>x f. requests (x\<lparr> currentMediaTime := f \<rparr>) = requests x"
    by (simp_all add: requests_def)
  from assms show ?thesis
    by (simp add: onMediaStatusUpdate_def updateProgressBar_def Let_def
        requests_updateDisplayMessage requests_updateMediaControlUI updateDisplayMessage_frame
        clearInterval_frame requests_clearInterval upd)
qed

lemma requests_status_other:
  assumes "session s = None" and "\<not> finished e"
  shows "requests (state_after (onMediaStatusUpdate e s)) =
           (case currentMediaSession s of None \<Rightarrow> requests s | Some m \<Rightarrow> Suc (requests s))"
    and "threw (onMediaStatusUpdate e s) = (currentMediaSession s = None)"
proof -
  have upd: "\<And>x f g. requests (x\<lparr> currentMediaTime := f, castPlayerState := g \<rparr>) = requests x"
      "\<And>x g. requests (x\<lparr> dom := g \<rparr>) = requests x"
      "\<And>x g. requests (x\<lparr> progressFlag := g \<rparr>) = requests x"
      "\<And>x. requests (setTimeout x) = requests x"
    by (simp_all add: requests_def setTimeout_def Let_def)
  have ses: "\<And>x. session (setTimeout x) = session x"
    by (simp add: setTimeout_def Let_def)
  from assms show "requests (state_after (onMediaStatusUpdate e s)) =
           (case currentMediaSession s of None \<Rightarrow> requests s | Some m \<Rightarrow> Suc (requests s))"
    by (cases "currentMediaSession s")
       (simp_all add: onMediaStatusUpdate_def updateProgressBar_def Let_def
          requests_updateDisplayMessage requests_updateMediaControlUI upd ses)
  from assms show "threw (onMediaStatusUpdate e s) = (currentMediaSession s = None)"
    by (cases "currentMediaSession s")
       (simp_all add: onMediaStatusUpdate_def updateProgressBar_def Let_def)
qed

lemma requests_stopMedia:
  assumes "session s = None"
  shows "requests (stopMedia s) =
           (case currentMediaSession s of None \<Rightarrow> requests s | Some m \<Rightarrow> Suc (requests s))"
proof -
  have upd: "\<And>x f g. requests (x\<lparr> localPlayer := f, localPlayerState := g \<rparr>) = requests x"
      "\<And>x g. requests (x\<lparr> castPlayerState := g \<rparr>) = requests x"
    by (simp_all add: requests_def)
  from assms show ?thesis
    by (cases "currentMediaSession s")
       (simp_all add: stopMedia_def stopMediaLocally_def requests_updateMediaControlUI
          requests_updateDisplayMessage clearInterval_frame requests_clearInterval
          requests_issue issue_frame upd)
qed

text \<open>
  Claim C10, as stated, fails for stop: with no media session \<open>stopMedia\<close> hands over to
  \<open>stopMediaLocally\<close>, which does not call \<open>updateDisplayMessage\<close>. On a fresh page, with no
  session, it makes no remote call at all.
\<close>

theorem stopMedia_locally_requests_nothing:
  "session (CastPlayer ''http://example.com/clip.mp4'') = None
   \<and> calls (stopMedia (CastPlayer ''http://example.com/clip.mp4'')) = []
   \<and> requests (stopMedia (CastPlayer ''http://example.com/clip.mp4'')) = 0"
  by code_simp

text \<open>
  Claim C10, amended. \<open>updateDisplayMessage\<close> called with no session issues a session
  request, and none with a session. With no session: \<open>playMedia\<close>, when it does not throw,
  and \<open>onLoadMediaError\<close> issue one request; a FINISHED/IDLE status update issues two; any
  other status update issues one when a media session exists and throws before the
  display message when none exists; \<open>stopMedia\<close> issues one when a media session exists and
  none when there is no media session.
\<close>

theorem display_message_requests_session:
  "(session s = None \<longrightarrow>
      calls (updateDisplayMessage s) = calls s @ [RequestSession]
      \<and> (\<not> threw (playMedia s) \<longrightarrow> requests (state_after (playMedia s)) = requests s + 1)
      \<and> requests (onLoadMediaError s) = requests s + 1
      \<and> (finished e \<longrightarrow> requests (state_after (onMediaStatusUpdate e s)) = requests s + 2)
      \<and> (\<not> finished e \<and> currentMediaSession s \<noteq> None
           \<longrightarrow> requests (state_after (onMediaStatusUpdate e s)) = requests s + 1)
      \<and> (\<not> finished e \<and> currentMediaSession s = None
           \<longrightarrow> threw (onMediaStatusUpdate e s)
               \<and> requests (state_after (onMediaStatusUpdate e s)) = requests s)
      \<and> (currentMediaSession s \<noteq> None \<longrightarrow> requests (stopMedia s) = requests s + 1)
      \<and> (currentMediaSession s = None \<longrightarrow> requests (stopMedia s) = requests s))
   \<and> (session s \<noteq> None \<longrightarrow> calls (updateDisplayMessage s) = calls s)"
proof -
  have a: "calls (updateDisplayMessage s) = calls s @ [RequestSession]" if "session s = None"
    using that by (simp add: updateDisplayMessage_calls)
  have b: "calls (updateDisplayMessage s) = calls s" if "session s \<noteq> None"
    using that by (auto simp: updateDisplayMessage_calls)
  have c: "requests (state_after (onMediaStatusUpdate e s)) = requests s + 1"
    if "session s = None" "\<not> finished e" "currentMediaSession s \<noteq> None"
    using requests_status_other(1)[OF that(1,2)] that(3) by auto
  have d: "threw (onMediaStatusUpdate e s)
       \<and> requests (state_after (onMediaStatusUpdate e s)) = requests s"
    if "session s = None" "\<not> finished e" "currentMediaSession s = None"
    using requests_status_other[OF that(1,2)] that(3) by auto
  have f: "requests (stopMedia s) = requests s + 1"
    if "session s = None" "currentMediaSession s \<noteq> None"
    using requests_stopMedia[OF that(1)] that(2) by auto
  have g: "requests (stopMedia s) = requests s"
    if "session s = None" "currentMediaSession s = None"
    using requests_stopMedia[OF that(1)] that(2) by auto
  from a b c d f g requests_playMedia[of s] requests_onLoadMediaError[of s]
    requests_status_finished[of s e]
  show ?thesis by simp
qed

theorem display_message_requests_session_witness:
  "session (CastPlayer ''a.mp4'') = None
   \<and> calls (updateDisplayMessage (CastPlayer ''a.mp4'')) = [RequestSession]
   \<and> requests (state_after (playMedia (CastPlayer ''a.mp4''))) = 1
   \<and> requests (onLoadMediaError (CastPlayer ''a.mp4'')) = 1
   \<and> requests (state_after (onMediaStatusUpdate (StatusMedia (Some ''FINISHED'') ''IDLE'' 0)
         (CastPlayer ''a.mp4''))) = 2
   \<and> threw (onMediaStatusUpdate (StatusFlag True) (CastPlayer ''a.mp4''))
   \<and> requests (stopMedia (CastPlayer ''a.mp4'')) = 0
   \<and> session casting \<noteq> None
   \<and> calls (updateDisplayMessage casting) = []"
proof -
  have init: "session (CastPlayer ''a.mp4'') = None" "calls (CastPlayer ''a.mp4'') = []"
      "currentMediaSession (CastPlayer ''a.mp4'') = None"
    by (simp_all add: CastPlayer_def)
  have r: "requests (CastPlayer ''a.mp4'') = 0"
    by (simp add: requests_def init)
  have p: "\<not> threw (playMedia (CastPlayer ''a.mp4''))"
    by (simp add: playMedia_def Let_def CastPlayer_def)
  have f: "finished (StatusMedia (Some ''FINISHED'') ''IDLE'' 0)" "\<not> finished (StatusFlag True)"
    by (simp_all add: finished_def)
  have c: "session casting \<noteq> None" "calls casting = []"
    by code_simp+
  from init r p f c
    display_message_requests_session[of "CastPlayer ''a.mp4''"
      "StatusMedia (Some ''FINISHED'') ''IDLE'' 0"]
    display_message_requests_session[of "CastPlayer ''a.mp4''" "StatusFlag True"]
    display_message_requests_session[of casting "StatusFlag True"]
  show ?thesis by simp
qed

section \<open>The single-timer invariant holds in every reachable state\<close>

lemma single_timer_same:
  assumes "env s' = env s" and "timer s' = timer s" and "single_timer s"
  shows "single_timer s'"
  using assms by (simp add: single_timer_def)

lemma single_timer_issue: "single_timer s \<Longrightarrow> single_timer (issue c s)"
  by (rule single_timer_same[of _ s]) (simp_all add: issue_frame)

lemma single_timer_updateMediaControlUI:
  "single_timer s \<Longrightarrow> single_timer (updateMediaControlUI s)"
  by (rule single_timer_same[of _ s]) (simp_all add: updateMediaControlUI_frame)

lemma single_timer_launchApp: "single_timer s \<Longrightarrow> single_timer (launchApp s)"
  by (simp add: launchApp_def Let_def single_timer_issue single_timer_clearInterval)

lemma single_timer_setTimeout: "single_timer s \<Longrightarrow> single_timer (setTimeout s)"
  by (auto simp: single_timer_def setTimeout_def Let_def list_all_iff)

lemma fold_setProgressFlag_frame:
  "env (fold (\<lambda>p. setProgressFlag) xs x) = env x
   \<and> timer (fold (\<lambda>p. setProgressFlag) xs x) = timer x"
  by (induction xs arbitrary: x) (simp_all add: setProgressFlag_def)

lemma single_timer_advance: "single_timer s \<Longrightarrow> single_timer (advance t s)"
  by (simp add: single_timer_def advance_def Let_def fold_setProgressFlag_frame)

lemma single_timer_loadMedia: "single_timer s \<Longrightarrow> single_timer (loadMedia i s)"
  by (rule single_timer_same[of _ s]) (simp_all add: loadMedia_frame)

lemma single_timer_onRequestSessionSuccess:
  assumes "single_timer s"
  shows "single_timer (onRequestSessionSuccess e s)"
proof -
  from assms have "single_timer (s\<lparr> session := Some e, deviceState := DEVICE_ACTIVE \<rparr>)"
    by (simp add: single_timer_def)
  then show ?thesis
    by (simp add: onRequestSessionSuccess_def single_timer_loadMedia
        single_timer_updateMediaControlUI)
qed

lemma single_timer_onLaunchError: "single_timer s \<Longrightarrow> single_timer (onLaunchError s)"
  by (simp add: single_timer_def onLaunchError_def)

lemma single_timer_stopApp: "single_timer s \<Longrightarrow> single_timer (stopApp s)"
  by (cases "session s") (simp_all add: stopApp_def single_timer_issue)

lemma single_timer_onStopAppSuccess:
  assumes "single_timer s"
  shows "single_timer (onStopAppSuccess s)"
proof -
  from assms have "single_timer
      (s\<lparr> deviceState := DEVICE_IDLE, castPlayerState := IDLE, currentMediaSession := None \<rparr>)"
    by (simp add: single_timer_def)
  then show ?thesis
    by (simp add: onStopAppSuccess_def single_timer_updateMediaControlUI
        single_timer_updateDisplayMessage single_timer_clearInterval)
qed

lemma single_timer_onLoadMediaError:
  assumes "single_timer s"
  shows "single_timer (onLoadMediaError s)"
proof -
  from assms have "single_timer (s\<lparr> castPlayerState := IDLE \<rparr>)"
    by (simp add: single_timer_def)
  then have "single_timer (updateDisplayMessage (updateMediaControlUI (s\<lparr> castPlayerState := IDLE \<rparr>)))"
    by (simp add: single_timer_updateMediaControlUI single_timer_updateDisplayMessage)
  then show ?thesis
    by (simp add: onLoadMediaError_def Let_def single_timer_def)
qed

lemma single_timer_updateProgressBar:
  assumes "single_timer s"
  shows "single_timer (state_after (updateProgressBar e s))"
proof (cases "finished e")
  case True
  from assms have "single_timer (s\<lparr> dom := (dom s)\<lparr> progress_width := Px 0,
                        indicator_marginLeft := Px (- 21 - PROGRESS_BAR_WIDTH) \<rparr> \<rparr>)"
    by (simp add: single_timer_def)
  then have "single_timer ((clearInterval (s\<lparr> dom := (dom s)\<lparr> progress_width := Px 0,
                        indicator_marginLeft := Px (- 21 - PROGRESS_BAR_WIDTH) \<rparr> \<rparr>))
               \<lparr> castPlayerState := STOPPED \<rparr>)"
    using single_timer_clearInterval by (simp add: single_timer_def)
  with True show ?thesis
    by (simp add: updateProgressBar_def single_timer_updateDisplayMessage)
next
  case False
  show ?thesis
  proof (cases "currentMediaSession s")
    case None
    with False assms show ?thesis by (simp add: updateProgressBar_def)
  next
    case (Some m)
    let ?s1 = "s\<lparr> dom := (dom s)\<lparr> progress_width :=
                          push_width (status_currentTime e) (media_duration m) \<rparr>,
                  progressFlag := False \<rparr>"
    from assms have "single_timer ?s1" by (simp add: single_timer_def)
    then have "single_timer (setTimeout ?s1)" by (rule single_timer_setTimeout)
    then have "single_timer ((setTimeout ?s1)\<lparr> dom := (dom (setTimeout ?s1))\<lparr> indicator_marginLeft :=
                          push_margin (status_currentTime e) (media_duration m) \<rparr> \<rparr>)"
      by (simp add: single_timer_def)
    with False Some show ?thesis by (simp add: updateProgressBar_def Let_def)
  qed
qed

lemma single_timer_onMediaStatusUpdate:
  assumes "single_timer s"
  shows "single_timer (state_after (onMediaStatusUpdate e s))"
proof -
  let ?s1 = "if status_is_false e then s\<lparr> currentMediaTime := 0, castPlayerState := IDLE \<rparr> else s"
  from assms have "single_timer ?s1" by (simp add: single_timer_def)
  then have "single_timer (state_after (updateProgressBar e ?s1))"
    by (rule single_timer_updateProgressBar)
  then show ?thesis
    by (cases "updateProgressBar e ?s1")
       (auto simp: onMediaStatusUpdate_def Let_def single_timer_updateMediaControlUI
          single_timer_updateDisplayMessage)
qed

lemma single_timer_updateProgressBarByTimer:
  assumes "single_timer s"
  shows "single_timer (updateProgressBarByTimer s)"
proof -
  have k: "\<And>x d. single_timer x \<Longrightarrow> single_timer (x\<lparr> dom := d \<rparr>)"
    by (simp add: single_timer_def)
  have c: "\<And>x. single_timer x \<Longrightarrow> single_timer (updateMediaControlUI (updateDisplayMessage
                ((clearInterval x)\<lparr> deviceState := DEVICE_IDLE, castPlayerState := IDLE \<rparr>)))"
  proof -
    fix x assume "single_timer x"
    then have "single_timer (clearInterval x)" by (rule single_timer_clearInterval)
    then have "single_timer ((clearInterval x)\<lparr> deviceState := DEVICE_IDLE, castPlayerState := IDLE \<rparr>)"
      by (simp add: single_timer_def)
    then show "single_timer (updateMediaControlUI (updateDisplayMessage
                ((clearInterval x)\<lparr> deviceState := DEVICE_IDLE, castPlayerState := IDLE \<rparr>)))"
      by (simp add: single_timer_updateMediaControlUI single_timer_updateDisplayMessage)
  qed
  from assms show ?thesis
    by (simp add: updateProgressBarByTimer_def Let_def k c)
qed

lemma single_timer_incrementMediaTime:
  assumes "single_timer s"
  shows "single_timer (incrementMediaTime s)"
proof -
  have k: "\<And>x t. single_timer x \<Longrightarrow> single_timer (x\<lparr> currentMediaTime := t \<rparr>)"
    by (simp add: single_timer_def)
  from assms show ?thesis
    by (simp add: incrementMediaTime_def k single_timer_updateProgressBarByTimer
        single_timer_clearInterval)
qed

lemma single_timer_discovered_rest:
  assumes "single_timer s3"
  shows "single_timer (discovered_rest m s3)"
proof -
  let ?s4 = "if castPlayerState s3 = PLAYING then startProgressTimer s3 else s3"
  from assms have "single_timer ?s4" by (simp add: single_timer_startProgressTimer)
  then have "single_timer (issue AddUpdateListener ?s4)" by (rule single_timer_issue)
  then have "single_timer ((issue AddUpdateListener ?s4)
      \<lparr> currentMediaDuration := media_duration m,
        dom := (dom (issue AddUpdateListener ?s4))
                 \<lparr> duration_html := format_remote (media_duration m) \<rparr> \<rparr>)"
    by (simp add: single_timer_def)
  then show ?thesis
    unfolding discovered_rest_def Let_def
    by (intro single_timer_updateDisplayMessage single_timer_updateMediaControlUI
        single_timer_startProgressTimer)
qed

lemma single_timer_onMediaDiscovered:
  assumes "single_timer s"
  shows "single_timer (state_after (onMediaDiscovered how m s))"
proof -
  have upd: "single_timer (s\<lparr> currentMediaSession := a \<rparr>)"
      "single_timer (s\<lparr> currentMediaSession := a, castPlayerState := b \<rparr>)"
      "single_timer (s\<lparr> currentMediaSession := a, castPlayerState := b, currentMediaTime := c \<rparr>)"
    for a b c
    using assms by (simp_all add: single_timer_def)
  show ?thesis
    by (simp add: onMediaDiscovered_def Let_def single_timer_discovered_rest upd
        split: option.splits list.splits)
qed

lemma single_timer_sessionListener:
  assumes "single_timer s"
  shows "single_timer (state_after (sessionListener e s))"
proof -
  from assms have "single_timer (s\<lparr> session := Some e, deviceState := DEVICE_ACTIVE \<rparr>)"
    by (simp add: single_timer_def)
  then show ?thesis
    by (simp add: sessionListener_def Let_def single_timer_onMediaDiscovered
        single_timer_loadMedia split: list.splits)
qed

lemma single_timer_onMediaLoadedLocally:
  assumes "single_timer s"
  shows "single_timer (onMediaLoadedLocally ct s)"
proof -
  let ?s2 = "s\<lparr> currentMediaDuration := lp_duration (localPlayer s),
               dom := (dom s)\<lparr> duration_html := format_local (lp_duration (localPlayer s)) \<rparr>,
               localPlayer := (localPlayer s)\<lparr> lp_currentTime := ct \<rparr> \<rparr>"
  from assms have "single_timer ?s2" by (simp add: single_timer_def)
  then have "single_timer (startProgressTimer ?s2)" by (rule single_timer_startProgressTimer)
  then have "\<And>d. single_timer ((startProgressTimer ?s2)\<lparr> dom := d \<rparr>)"
    by (simp add: single_timer_def)
  then show ?thesis
    by (simp add: onMediaLoadedLocally_def Let_def)
qed

lemma single_timer_castPlayerState:
  "single_timer s \<Longrightarrow> single_timer (s\<lparr> castPlayerState := x \<rparr>)"
  by (simp add: single_timer_def)

lemma single_timer_playMedia:
  assumes "single_timer s"
  shows "single_timer (state_after (playMedia s))"
  using assms
  by (simp add: playMedia_def Let_def single_timer_updateDisplayMessage
      single_timer_updateMediaControlUI single_timer_startProgressTimer single_timer_issue
      single_timer_castPlayerState single_timer_loadMedia split: option.splits)

lemma single_timer_pauseMedia:
  assumes "single_timer s"
  shows "single_timer (pauseMedia s)"
proof -
  from assms have "single_timer (s\<lparr> localPlayer := (localPlayer s)\<lparr> lp_playing := False \<rparr>,
           localPlayerState := PAUSED \<rparr>)"
    by (simp add: single_timer_def)
  with assms show ?thesis
    by (simp add: pauseMedia_def pauseMediaLocally_def single_timer_clearInterval
        single_timer_updateDisplayMessage single_timer_updateMediaControlUI single_timer_issue
        single_timer_castPlayerState split: option.splits)
qed

lemma single_timer_stopMedia:
  assumes "single_timer s"
  shows "single_timer (stopMedia s)"
proof -
  from assms have "single_timer
      (s\<lparr> localPlayer := (localPlayer s)\<lparr> lp_shown := False, lp_playing := False \<rparr>,
          localPlayerState := STOPPED \<rparr>)"
    by (simp add: single_timer_def)
  with assms show ?thesis
    by (simp add: stopMedia_def stopMediaLocally_def single_timer_clearInterval
        single_timer_updateDisplayMessage single_timer_updateMediaControlUI single_timer_issue
        single_timer_castPlayerState split: option.splits)
qed

lemma single_timer_seekMedia:
  assumes "single_timer s"
  shows "single_timer (state_after (seekMedia ev s))"
proof -
  have "single_timer (s\<lparr> currentMediaTime := x \<rparr>)" for x
    using assms by (simp add: single_timer_def)
  with assms show ?thesis
    by (simp add: seekMedia_def Let_def single_timer_updateDisplayMessage
        single_timer_updateMediaControlUI single_timer_issue single_timer_castPlayerState
        split: option.splits)
qed

lemma single_timer_onSeekSuccess: "single_timer s \<Longrightarrow> single_timer (onSeekSuccess s)"
  by (simp add: onSeekSuccess_def single_timer_updateDisplayMessage
      single_timer_updateMediaControlUI single_timer_castPlayerState)

lemma step_single_timer: "step s s' \<Longrightarrow> single_timer s \<Longrightarrow> single_timer s'"
proof (induction rule: step.induct)
  case (s_tick s)
  then show ?case by (simp add: single_timer_incrementMediaTime)
qed (simp_all add: single_timer_launchApp single_timer_onRequestSessionSuccess
      single_timer_onLaunchError single_timer_sessionListener single_timer_stopApp
      single_timer_onStopAppSuccess single_timer_onMediaDiscovered
      single_timer_onLoadMediaError single_timer_onMediaStatusUpdate single_timer_advance
      single_timer_onMediaLoadedLocally single_timer_playMedia single_timer_pauseMedia
      single_timer_stopMedia single_timer_seekMedia single_timer_onSeekSuccess)

text \<open>
  Every reachable state satisfies the single-timer invariant: the hypothesis of the
  statements about the progress timer holds wherever the controller can be.
\<close>

lemma reachable_single_timer: "reachable s \<Longrightarrow> single_timer s"
  by (induction rule: reachable.induct) (auto intro: single_timer_CastPlayer step_single_timer)

section \<open>The session handle is never cleared\<close>

lemma startProgressTimer_session: "session (startProgressTimer s) = session s"
  by (simp add: startProgressTimer_def setInterval_def Let_def clearInterval_frame)

lemma discovered_rest_session: "session (discovered_rest m s) = session s"
  by (simp add: discovered_rest_def Let_def updateDisplayMessage_frame
      updateMediaControlUI_frame startProgressTimer_session issue_frame)

lemma onMediaDiscovered_session:
  "session (state_after (onMediaDiscovered how m s)) = session s"
  by (simp add: onMediaDiscovered_def Let_def discovered_rest_session
      split: option.splits list.splits)

lemma updateProgressBar_session: "session (state_after (updateProgressBar e s)) = session s"
  by (simp add: updateProgressBar_def Let_def setTimeout_def updateDisplayMessage_frame
      clearInterval_frame split: option.splits)

lemma onMediaStatusUpdate_session:
  "session (state_after (onMediaStatusUpdate e s)) = session s"
proof -
  let ?s1 = "if status_is_false e then s\<lparr> currentMediaTime := 0, castPlayerState := IDLE \<rparr> else s"
  have "session (state_after (updateProgressBar e ?s1)) = session s"
    by (simp add: updateProgressBar_session)
  then show ?thesis
    by (cases "updateProgressBar e ?s1")
       (auto simp: onMediaStatusUpdate_def Let_def updateMediaControlUI_frame
          updateDisplayMessage_frame)
qed

lemma incrementMediaTime_session: "session (incrementMediaTime s) = session s"
  by (simp add: incrementMediaTime_def updateProgressBarByTimer_frame clearInterval_frame)

lemma fold_setProgressFlag_session: "session (fold (\<lambda>p. setProgressFlag) xs x) = session x"
  by (induction xs arbitrary: x) (simp_all add: setProgressFlag_def)

text \<open>No step takes a controller that has a session back to having none.\<close>

lemma step_keeps_session: "step s s' \<Longrightarrow> session s \<noteq> None \<Longrightarrow> session s' \<noteq> None"
proof (induction rule: step.induct)
  case (s_sessionListener s e)
  show ?case
    by (simp add: sessionListener_def Let_def onMediaDiscovered_session loadMedia_frame
        split: list.splits)
next
  case (s_onRequestSessionSuccess s e)
  show ?case
    by (simp add: onRequestSessionSuccess_def loadMedia_frame updateMediaControlUI_frame)
next
  case (s_playMedia s)
  then show ?case
    by (simp add: playMedia_def Let_def updateDisplayMessage_frame updateMediaControlUI_frame
        startProgressTimer_session issue_frame loadMedia_frame split: option.splits)
next
  case (s_seekMedia s ev)
  then show ?case
    by (simp add: seekMedia_def Let_def updateDisplayMessage_frame updateMediaControlUI_frame
        issue_frame split: option.splits)
next
  case (s_pauseMedia s)
  then show ?case
    by (simp add: pauseMedia_def pauseMediaLocally_def clearInterval_frame
        updateDisplayMessage_frame updateMediaControlUI_frame issue_frame split: option.splits)
next
  case (s_stopMedia s)
  then show ?case
    by (simp add: stopMedia_def stopMediaLocally_def clearInterval_frame
        updateDisplayMessage_frame updateMediaControlUI_frame issue_frame split: option.splits)
next
  case (s_onMediaLoadedLocally s ct)
  then show ?case
    by (simp add: onMediaLoadedLocally_def Let_def startProgressTimer_session)
next
  case (s_stopApp s)
  then show ?case by (auto simp: stopApp_def issue_frame)
qed (simp_all add: launchApp_frame onLaunchError_def onStopAppSuccess_def
      updateMediaControlUI_frame updateDisplayMessage_frame clearInterval_frame
      onMediaDiscovered_session onLoadMediaError_def Let_def onMediaStatusUpdate_session
      incrementMediaTime_session advance_def fold_setProgressFlag_session onSeekSuccess_def)

end
